theory Spec2Isabelle
  imports Complex_Main "HOL-Library.AList"
begin

section \<open>The SMART plugin of Checkmk: parser, discovery and check\<close>

text \<open>
  This theory embeds \<^verbatim>\<open>cmk/base/plugins/agent_based/smart.py\<close>: the parser of the
  agent section (\<^verbatim>\<open>parse_raw_values\<close> with its two sub-parsers), the discovery function
  (\<^verbatim>\<open>discover_smart_stats\<close>) and the check function (\<^verbatim>\<open>check_smart_stats\<close>).

  Conventions of the embedding.
  \<^item> A Python \<^verbatim>\<open>str\<close> is a \<open>string\<close>; one \<open>char\<close> stands for one code point below 256.
    The agent output is ASCII text.
  \<^item> A Python \<^verbatim>\<open>int\<close> is an \<open>int\<close>.
  \<^item> A \<^verbatim>\<open>dict\<close> is an association list in insertion order: a lookup is \<open>map_of\<close>, an
    assignment \<^verbatim>\<open>d[k] = v\<close> is \<open>AList.update k v d\<close> (the key keeps its place when it is
    there already and goes to the end otherwise). A list that stands for a dictionary has
    distinct keys.
  \<^item> An exception that leaves a function is the value \<open>Inl e\<close> of a sum type; the
    result of a normal return is \<open>Inr r\<close>.
  \<^item> A generator is modelled by the list of what it yields when it is run to its end, as
    the caller of a check or discovery function runs it.
\<close>

subsection \<open>Exceptions\<close>

datatype error =
    ValueError
  | KeyError string
  | IndexError
  | UnboundLocalError
  | RateError

text \<open>
  \<open>RateError\<close> stands for whatever the rate collaborator \<^verbatim>\<open>get_rate\<close> raises; the other
  constructors are the built-in exceptions of the same name.
\<close>

subsection \<open>The string operations of Python that the plugin uses\<close>

definition ord :: "char \<Rightarrow> nat" where
  "ord c = of_char c"

text \<open>
  The characters that \<^verbatim>\<open>str.strip\<close> and \<^verbatim>\<open>str.split\<close> (without argument) treat as white
  space, among the code points below 256.
\<close>

definition py_isspace :: "char \<Rightarrow> bool" where
  "py_isspace c = (let n = ord c in (9 \<le> n \<and> n \<le> 13) \<or> (28 \<le> n \<and> n \<le> 32) \<or> n = 133 \<or> n = 160)"

text \<open>
  The characters that \<^verbatim>\<open>int\<close> skips around a number: the file separators 28 to 31 are
  not among them.
\<close>

definition int_isspace :: "char \<Rightarrow> bool" where
  "int_isspace c = (let n = ord c in (9 \<le> n \<and> n \<le> 13) \<or> n = 32 \<or> n = 133 \<or> n = 160)"

definition py_strip :: "string \<Rightarrow> string" where
  "py_strip s = rev (dropWhile py_isspace (rev (dropWhile py_isspace s)))"

text \<open>\<^verbatim>\<open>s.split()\<close>: the maximal runs of characters that are not white space.\<close>

fun split_ws :: "string \<Rightarrow> string \<Rightarrow> string list" where
  "split_ws cur [] = (if cur = [] then [] else [rev cur])"
| "split_ws cur (c # cs) =
     (if py_isspace c
      then (if cur = [] then split_ws [] cs else rev cur # split_ws [] cs)
      else split_ws (c # cur) cs)"

definition py_split :: "string \<Rightarrow> string list" where
  "py_split s = split_ws [] s"

text \<open>\<^verbatim>\<open>s.split(sep)\<close> for a separator of one character: empty pieces are kept.\<close>

fun py_split_on :: "char \<Rightarrow> string \<Rightarrow> string list" where
  "py_split_on sep [] = ['''']"
| "py_split_on sep (c # cs) =
     (if c = sep then [] # py_split_on sep cs
      else (case py_split_on sep cs of
              [] \<Rightarrow> [c # '''']
            | w # ws \<Rightarrow> (c # w) # ws))"

fun py_join :: "string \<Rightarrow> string list \<Rightarrow> string" where
  "py_join sep [] = []"
| "py_join sep [x] = x"
| "py_join sep (x # y # ys) = x @ sep @ py_join sep (y # ys)"

text \<open>\<^verbatim>\<open>s.replace(a, b)\<close> for a pattern \<open>a\<close> of one character.\<close>

definition py_replace :: "char \<Rightarrow> string \<Rightarrow> string \<Rightarrow> string" where
  "py_replace a b s = concat (map (\<lambda>c. if c = a then b else [c]) s)"

text \<open>\<^verbatim>\<open>pat in s\<close> on strings: \<open>pat\<close> occurs in \<open>s\<close> as a contiguous piece.\<close>

fun py_contains :: "string \<Rightarrow> string \<Rightarrow> bool" where
  "py_contains pat [] = (pat = [])"
| "py_contains pat (c # cs) = (take (length pat) (c # cs) = pat \<or> py_contains pat cs)"

subsection \<open>Conversion of a string to an integer\<close>

text \<open>
  \<^verbatim>\<open>int(s)\<close> and \<^verbatim>\<open>int(s, 16)\<close> on a string: white space around the number is skipped, one
  sign may come first, base 16 admits the prefix \<^verbatim>\<open>0x\<close> (and one underscore after it), the
  digits may be grouped by single underscores, and everything else raises
  \<^verbatim>\<open>ValueError\<close>, here \<open>None\<close>. The interpreter's limit on the number of digits of a
  decimal literal (4300 by default, adjustable) is not part of the model.
\<close>

definition digit_val :: "char \<Rightarrow> int option" where
  "digit_val c =
     (let n = int (ord c) in
      if 48 \<le> n \<and> n \<le> 57 then Some (n - 48)
      else if 97 \<le> n \<and> n \<le> 122 then Some (n - 87)
      else if 65 \<le> n \<and> n \<le> 90 then Some (n - 55)
      else None)"

text \<open>
  \<open>scan_digits b acc seen us s\<close> reads the digits of \<open>s\<close> in base \<open>b\<close>: \<open>acc\<close> is the value
  read so far, \<open>seen\<close> says that a digit was read, \<open>us\<close> that the last character was an
  underscore. The scan stops at the first character that is neither a digit nor an
  underscore; from there on only white space may follow.
\<close>

fun scan_digits :: "int \<Rightarrow> int \<Rightarrow> bool \<Rightarrow> bool \<Rightarrow> string \<Rightarrow> int option" where
  "scan_digits b acc seen us [] = (if seen \<and> \<not> us then Some acc else None)"
| "scan_digits b acc seen us (c # cs) =
     (if c = CHR ''_'' then (if us then None else scan_digits b acc seen True cs)
      else (case digit_val c of
              Some d \<Rightarrow>
                (if d < b then scan_digits b (acc * b + d) True False cs
                 else if seen \<and> \<not> us \<and> list_all int_isspace (c # cs) then Some acc else None)
            | None \<Rightarrow>
                (if seen \<and> \<not> us \<and> list_all int_isspace (c # cs) then Some acc else None)))"

fun strip_prefix16 :: "string \<Rightarrow> string" where
  "strip_prefix16 (a # x # rest) =
     (if a = CHR ''0'' \<and> (x = CHR ''x'' \<or> x = CHR ''X'')
      then (case rest of u # rest' \<Rightarrow> (if u = CHR ''_'' then rest' else rest) | [] \<Rightarrow> rest)
      else a # x # rest)"
| "strip_prefix16 s = s"

definition int_body :: "int \<Rightarrow> string \<Rightarrow> int option" where
  "int_body b s =
     (let t = (if b = 16 then strip_prefix16 s else s)
      in (case t of
            [] \<Rightarrow> None
          | c # cs \<Rightarrow> (if c = CHR ''_'' then None else scan_digits b 0 False False t)))"

definition py_int_base :: "int \<Rightarrow> string \<Rightarrow> int option" where
  "py_int_base b s =
     (case dropWhile int_isspace s of
        [] \<Rightarrow> None
      | c # cs \<Rightarrow>
          (if c = CHR ''-'' then map_option uminus (int_body b cs)
           else if c = CHR ''+'' then int_body b cs
           else int_body b (c # cs)))"

definition py_int :: "string \<Rightarrow> int option" where
  "py_int s = py_int_base 10 s"

definition py_int16 :: "string \<Rightarrow> int option" where
  "py_int16 s = py_int_base 16 s"

subsection \<open>The attribute registry\<close>

datatype DiskAttribute =
    REALLOCATED_SECTORS
  | POWER_ON_HOURS
  | SPIN_RETRIES
  | POWER_CYCLES
  | END_TO_END_ERRORS
  | UNCORRECTABLE_ERRORS
  | COMMAND_TIMEOUT_COUNTER
  | TEMPERATURE
  | REALLOCATED_EVENTS
  | PENDING_SECTORS
  | UDMA_CRC_ERRORS
  | CRC_ERRORS
  | CRITICAL_WARNING
  | MEDIA_AND_DATA_INTEGRITY_ERRORS
  | AVAILABLE_SPARE
  | PERCENTAGE_USED
  | ERROR_INFORMATION_LOG_ENTRIES
  | DATA_UNITS_READ
  | DATA_UNITS_WRITTEN

text \<open>
  The members of the enumeration in the order of their definition, which is the order in
  which \<^verbatim>\<open>for attribute in DiskAttribute\<close> visits them.
\<close>

definition all_attributes :: "DiskAttribute list" where
  "all_attributes =
     [REALLOCATED_SECTORS, POWER_ON_HOURS, SPIN_RETRIES, POWER_CYCLES, END_TO_END_ERRORS,
      UNCORRECTABLE_ERRORS, COMMAND_TIMEOUT_COUNTER, TEMPERATURE, REALLOCATED_EVENTS,
      PENDING_SECTORS, UDMA_CRC_ERRORS, CRC_ERRORS, CRITICAL_WARNING,
      MEDIA_AND_DATA_INTEGRITY_ERRORS, AVAILABLE_SPARE, PERCENTAGE_USED,
      ERROR_INFORMATION_LOG_ENTRIES, DATA_UNITS_READ, DATA_UNITS_WRITTEN]"

text \<open>
  The field \<^verbatim>\<open>name\<close> of the member's value: the tuple class comes first among the bases
  of \<^verbatim>\<open>DiskAttribute\<close>, so \<^verbatim>\<open>attribute.name\<close> is the canonical attribute name.
\<close>

fun name :: "DiskAttribute \<Rightarrow> string" where
  "name REALLOCATED_SECTORS = ''Reallocated_Sectors''"
| "name POWER_ON_HOURS = ''Power_On_Hours''"
| "name SPIN_RETRIES = ''Spin_Retries''"
| "name POWER_CYCLES = ''Power_Cycles''"
| "name END_TO_END_ERRORS = ''End-to-End_Errors''"
| "name UNCORRECTABLE_ERRORS = ''Uncorrectable_Errors''"
| "name COMMAND_TIMEOUT_COUNTER = ''Command_Timeout_Counter''"
| "name TEMPERATURE = ''Temperature''"
| "name REALLOCATED_EVENTS = ''Reallocated_Events''"
| "name PENDING_SECTORS = ''Pending_Sectors''"
| "name UDMA_CRC_ERRORS = ''UDMA_CRC_Errors''"
| "name CRC_ERRORS = ''CRC_Errors''"
| "name CRITICAL_WARNING = ''Critical_Warning''"
| "name MEDIA_AND_DATA_INTEGRITY_ERRORS = ''Media_and_Data_Integrity_Errors''"
| "name AVAILABLE_SPARE = ''Available_Spare''"
| "name PERCENTAGE_USED = ''Percentage_Used''"
| "name ERROR_INFORMATION_LOG_ENTRIES = ''Error_Information_Log_Entries''"
| "name DATA_UNITS_READ = ''Data_Units_Read''"
| "name DATA_UNITS_WRITTEN = ''Data_Units_Written''"

fun capture_on_discovery :: "DiskAttribute \<Rightarrow> bool" where
  "capture_on_discovery REALLOCATED_SECTORS = True"
| "capture_on_discovery POWER_ON_HOURS = False"
| "capture_on_discovery SPIN_RETRIES = True"
| "capture_on_discovery POWER_CYCLES = False"
| "capture_on_discovery END_TO_END_ERRORS = True"
| "capture_on_discovery UNCORRECTABLE_ERRORS = True"
| "capture_on_discovery COMMAND_TIMEOUT_COUNTER = True"
| "capture_on_discovery TEMPERATURE = False"
| "capture_on_discovery REALLOCATED_EVENTS = True"
| "capture_on_discovery PENDING_SECTORS = True"
| "capture_on_discovery UDMA_CRC_ERRORS = True"
| "capture_on_discovery CRC_ERRORS = True"
| "capture_on_discovery CRITICAL_WARNING = True"
| "capture_on_discovery MEDIA_AND_DATA_INTEGRITY_ERRORS = True"
| "capture_on_discovery AVAILABLE_SPARE = False"
| "capture_on_discovery PERCENTAGE_USED = False"
| "capture_on_discovery ERROR_INFORMATION_LOG_ENTRIES = False"
| "capture_on_discovery DATA_UNITS_READ = False"
| "capture_on_discovery DATA_UNITS_WRITTEN = False"

definition MAX_COMMAND_TIMEOUTS_PER_HOUR :: int where
  "MAX_COMMAND_TIMEOUTS_PER_HOUR = 100"

definition CRC_ERRORS_ID :: int where
  "CRC_ERRORS_ID = 199"

definition ATA_ID_TO_DISK_ATTRIBUTE :: "int \<Rightarrow> DiskAttribute option" where
  "ATA_ID_TO_DISK_ATTRIBUTE =
     map_of
       [(5, REALLOCATED_SECTORS),
        (9, POWER_ON_HOURS),
        (10, SPIN_RETRIES),
        (12, POWER_CYCLES),
        (184, END_TO_END_ERRORS),
        (187, UNCORRECTABLE_ERRORS),
        (188, COMMAND_TIMEOUT_COUNTER),
        (194, TEMPERATURE),
        (196, REALLOCATED_EVENTS),
        (197, PENDING_SECTORS),
        (CRC_ERRORS_ID, CRC_ERRORS)]"

subsection \<open>The parser\<close>

type_synonym Disk = "(string \<times> int) list"
type_synonym Disks = "(string \<times> Disk) list"

definition set_int_or_zero :: "Disk \<Rightarrow> string \<Rightarrow> string \<Rightarrow> Disk" where
  "set_int_or_zero disk key v =
     (case py_int v of
        Some i \<Rightarrow> AList.update key i disk
      | None \<Rightarrow> AList.update key 0 disk)"

text \<open>
  \<^verbatim>\<open>d.setdefault(k, v)\<close>: the value under \<open>k\<close> after the call, and the dictionary after
  the call.
\<close>

definition setdefault :: "'k \<Rightarrow> 'v \<Rightarrow> ('k \<times> 'v) list \<Rightarrow> 'v \<times> ('k \<times> 'v) list" where
  "setdefault k v d =
     (case map_of d k of
        Some w \<Rightarrow> (w, d)
      | None \<Rightarrow> (v, d @ [(k, v)]))"

text \<open>
  The body of the loop of \<^verbatim>\<open>_parse_ata_lines\<close> on one line. The variable \<^verbatim>\<open>disk\<close> of
  the source is the dictionary stored under \<^verbatim>\<open>disk_path\<close>, so a write to it is a write to
  that entry of \<^verbatim>\<open>ata_disks\<close>. A line of fewer than thirteen fields cannot be unpacked.
\<close>

definition normalized_value_key :: "DiskAttribute \<Rightarrow> string" where
  "normalized_value_key a = ''_normalized_value_'' @ name a"

definition normalized_threshold_key :: "DiskAttribute \<Rightarrow> string" where
  "normalized_threshold_key a = ''_normalized_threshold_'' @ name a"

definition capture_normalized :: "Disk \<Rightarrow> string \<Rightarrow> string \<Rightarrow> Disk" where
  "capture_normalized disk v threshold =
     (case py_int v of
        None \<Rightarrow> disk
      | Some nv \<Rightarrow>
          (let disk1 = AList.update (normalized_value_key REALLOCATED_EVENTS) nv disk
           in (case py_int threshold of
                 None \<Rightarrow> disk1
               | Some nt \<Rightarrow> AList.update (normalized_threshold_key REALLOCATED_EVENTS) nt disk1)))"

fun ata_line :: "Disks \<Rightarrow> string list \<Rightarrow> error + Disks" where
  "ata_line ata_disks
     (disk_path # disk_type # disk_name # ID # attribute_name # flag # v # worst #
      threshold # type # updated # when_failed # raw_value # raw_value_info) =
     (case setdefault disk_path [] ata_disks of
        (disk, disks1) \<Rightarrow>
          if attribute_name = ''Unknown_Attribute'' then Inr disks1
          else (case py_int ID of
                  None \<Rightarrow> Inl ValueError
                | Some code \<Rightarrow>
                    if code = CRC_ERRORS_ID \<and> attribute_name = ''UDMA_CRC_Error_Count''
                    then Inr (AList.update disk_path
                               (set_int_or_zero disk (name UDMA_CRC_ERRORS) raw_value) disks1)
                    else (case ATA_ID_TO_DISK_ATTRIBUTE code of
                            None \<Rightarrow>
                              if attribute_name \<in> fst ` set disk then Inr disks1
                              else Inr (AList.update disk_path
                                         (set_int_or_zero disk attribute_name raw_value) disks1)
                          | Some lookup_attribute \<Rightarrow>
                              (let disk1 = set_int_or_zero disk (name lookup_attribute) raw_value
                               in if lookup_attribute = REALLOCATED_EVENTS
                                  then Inr (AList.update disk_path
                                             (capture_normalized disk1 v threshold) disks1)
                                  else Inr (AList.update disk_path disk1 disks1)))))"
| "ata_line ata_disks short_line = Inl ValueError"

fun parse_ata_from :: "Disks \<Rightarrow> string list list \<Rightarrow> error + Disks" where
  "parse_ata_from ata_disks [] = Inr ata_disks"
| "parse_ata_from ata_disks (line # rest) =
     (case ata_line ata_disks line of
        Inl e \<Rightarrow> Inl e
      | Inr disks1 \<Rightarrow> parse_ata_from disks1 rest)"

definition parse_ata_lines :: "string list list \<Rightarrow> error + Disks" where
  "parse_ata_lines ata_lines = parse_ata_from [] ata_lines"

text \<open>
  The body of the loop of \<^verbatim>\<open>_parse_nvme_lines\<close>. The state is the dictionary
  \<^verbatim>\<open>nvme_disks\<close> and the path under which the dictionary bound to the variable
  \<^verbatim>\<open>disk\<close> is stored; \<open>None\<close> as long as \<^verbatim>\<open>disk\<close> is unbound. The unpacking
  \<^verbatim>\<open>field, value = [...]\<close> raises \<^verbatim>\<open>ValueError\<close> unless the joined line has exactly one
  colon. In a call the arguments are evaluated from left to right, in an assignment the
  right-hand side comes first: this fixes which exception is raised where two are
  possible. The path of the state is always a key of \<^verbatim>\<open>nvme_disks\<close>, so the second
  \<open>None\<close> of \<open>nvme_store\<close> is never reached.
\<close>

definition strip_value :: "string \<Rightarrow> string" where
  "strip_value s = py_replace (CHR '','') [] (py_replace (CHR ''.'') [] (py_replace (CHR ''%'') [] s))"

definition nvme_store :: "Disks \<Rightarrow> string option \<Rightarrow> (Disk \<Rightarrow> Disk) \<Rightarrow> error + Disks \<times> string option" where
  "nvme_store nvme_disks cur f =
     (case cur of
        None \<Rightarrow> Inl UnboundLocalError
      | Some p \<Rightarrow>
          (case map_of nvme_disks p of
             None \<Rightarrow> Inl UnboundLocalError
           | Some disk \<Rightarrow> Inr (AList.update p (f disk) nvme_disks, cur)))"

fun nvme_line :: "Disks \<times> string option \<Rightarrow> string list \<Rightarrow> error + Disks \<times> string option" where
  "nvme_line (nvme_disks, cur) [] = Inl IndexError"
| "nvme_line (nvme_disks, cur) (l0 # ls) =
     (if py_contains ''/dev'' l0
      then Inr (snd (setdefault l0 [] nvme_disks), Some l0)
      else (case map py_strip (py_split_on (CHR '':'') (py_join '' '' (l0 # ls))) of
              [field, value0] \<Rightarrow>
                (let key = py_replace (CHR '' '') ''_'' field;
                     val = strip_value value0
                 in if field = ''Temperature'' then
                      (case cur of
                         None \<Rightarrow> Inl UnboundLocalError
                       | Some p \<Rightarrow>
                           (case py_split val of
                              [] \<Rightarrow> Inl IndexError
                            | tok # toks \<Rightarrow>
                                nvme_store nvme_disks cur (\<lambda>disk. set_int_or_zero disk key tok)))
                    else if field = ''Critical Warning'' then
                      (case py_int16 val of
                         None \<Rightarrow> Inl ValueError
                       | Some i \<Rightarrow> nvme_store nvme_disks cur (AList.update key i))
                    else if field = ''Data Units Read'' \<or> field = ''Data Units Written'' then
                      (case py_split val of
                         [] \<Rightarrow> Inl IndexError
                       | tok # toks \<Rightarrow>
                           (case py_int tok of
                              None \<Rightarrow> Inl ValueError
                            | Some i \<Rightarrow> nvme_store nvme_disks cur (AList.update key (i * 512000))))
                    else nvme_store nvme_disks cur (\<lambda>disk. set_int_or_zero disk key val))
            | other \<Rightarrow> Inl ValueError))"

fun parse_nvme_from :: "Disks \<times> string option \<Rightarrow> string list list \<Rightarrow> error + Disks" where
  "parse_nvme_from (nvme_disks, cur) [] = Inr nvme_disks"
| "parse_nvme_from (nvme_disks, cur) (line # rest) =
     (case nvme_line (nvme_disks, cur) line of
        Inl e \<Rightarrow> Inl e
      | Inr st \<Rightarrow> parse_nvme_from st rest)"

definition parse_nvme_lines :: "string list list \<Rightarrow> error + Disks" where
  "parse_nvme_lines nvme_lines = parse_nvme_from ([], None) nvme_lines"

text \<open>\<^verbatim>\<open>{**a, **b}\<close>: the entries of \<open>a\<close>, then those of \<open>b\<close> assigned one by one.\<close>

definition dict_merge :: "('k \<times> 'v) list \<Rightarrow> ('k \<times> 'v) list \<Rightarrow> ('k \<times> 'v) list" where
  "dict_merge a b = fold (\<lambda>(k, v). AList.update k v) b a"

definition parse_raw_values :: "string list list \<Rightarrow> error + Disks" where
  "parse_raw_values string_table =
     (let ata_lines = filter (\<lambda>line. 13 \<le> length line) string_table;
          nvme_lines = filter (\<lambda>line. 3 \<le> length line \<and> length line \<le> 6) string_table
      in (case parse_ata_lines ata_lines of
            Inl e \<Rightarrow> Inl e
          | Inr ata \<Rightarrow>
              (case parse_nvme_lines nvme_lines of
                 Inl e \<Rightarrow> Inl e
               | Inr nvme \<Rightarrow> Inr (dict_merge ata nvme))))"

subsection \<open>Discovery\<close>

text \<open>\<^verbatim>\<open>Service(item=..., parameters=...)\<close>: the item and the parameters.\<close>

datatype Service = Service string "(string \<times> int) list"

text \<open>
  The dictionary comprehension of \<^verbatim>\<open>discover_smart_stats\<close>: the members of the
  enumeration are visited in order, and one entry is made for each member that is flagged
  and whose name is a key of \<open>disk\<close>.
\<close>

definition captured :: "Disk \<Rightarrow> (string \<times> int) list" where
  "captured disk =
     concat (map (\<lambda>f. if capture_on_discovery f
                       then (case map_of disk (name f) of
                               Some v \<Rightarrow> [(name f, v)]
                             | None \<Rightarrow> [])
                       else []) all_attributes)"

definition discover_smart_stats :: "Disks \<Rightarrow> Service list" where
  "discover_smart_stats section =
     concat (map (\<lambda>(disk_name, disk).
                    if captured disk \<noteq> [] then [Service disk_name (captured disk)] else [])
                 section)"

subsection \<open>The check\<close>

datatype State = OK | WARN | CRIT | UNKNOWN

datatype check_item = Result State string | Metric string int

text \<open>
  What the check takes from the host: the three renderers of the module \<^verbatim>\<open>render\<close>, and
  \<^verbatim>\<open>get_rate\<close> on the value store of the service at the time of the call. \<open>get_rate h key v\<close>
  is what the call \<^verbatim>\<open>get_rate(get_value_store(), key, time.time(), v)\<close> returns or raises.
  The rate is a float in the source, a finite double; here it is the real number that
  the double stands for, and two doubles compare as these real numbers do.
\<close>

record host =
  timespan :: "int \<Rightarrow> string"
  percent :: "int \<Rightarrow> string"
  bytes :: "int \<Rightarrow> string"
  get_rate :: "string \<Rightarrow> int \<Rightarrow> error + real"

text \<open>\<^verbatim>\<open>str(i)\<close>, which is also \<^verbatim>\<open>"%d" % i\<close>, on an integer.\<close>

function str_digits :: "int \<Rightarrow> string" where
  "str_digits n =
     (if n < 10 then [''0123456789'' ! nat n]
      else str_digits (n div 10) @ [''0123456789'' ! nat (n mod 10)])"
  by pat_completeness auto
termination
  by (relation "measure nat") auto

definition py_str :: "int \<Rightarrow> string" where
  "py_str i = (if i < 0 then CHR ''-'' # str_digits (- i) else str_digits i)"

fun renderer :: "host \<Rightarrow> DiskAttribute \<Rightarrow> int \<Rightarrow> string" where
  "renderer h POWER_ON_HOURS v = timespan h (v * 3600)"
| "renderer h AVAILABLE_SPARE v = percent h v"
| "renderer h PERCENTAGE_USED v = percent h v"
| "renderer h DATA_UNITS_READ v = bytes h v"
| "renderer h DATA_UNITS_WRITTEN v = bytes h v"
| "renderer h other v = py_str v"

text \<open>
  \<^verbatim>\<open>str.lower\<close> on ASCII text, and \<^verbatim>\<open>s.split("_", maxsplit=1)\<close>: the text before the
  first underscore and, when there is an underscore, the text after it.
\<close>

definition py_lower :: "string \<Rightarrow> string" where
  "py_lower s = map (\<lambda>c. if 65 \<le> ord c \<and> ord c \<le> 90 then char_of (ord c + 32) else c) s"

definition split_first_underscore :: "string \<Rightarrow> string \<times> string option" where
  "split_first_underscore s =
     (case dropWhile (\<lambda>c. c \<noteq> CHR ''_'') s of
        [] \<Rightarrow> (s, None)
      | u # rest \<Rightarrow> (takeWhile (\<lambda>c. c \<noteq> CHR ''_'') s, Some rest))"

definition display_attribute_name :: "DiskAttribute \<Rightarrow> string" where
  "display_attribute_name attribute =
     (if attribute = CRC_ERRORS then ''CRC errors''
      else if attribute = UDMA_CRC_ERRORS then ''UDMA CRC errors''
      else if attribute = POWER_ON_HOURS then ''Powered on''
      else (case split_first_underscore (name attribute) of
              (first, Some rest) \<Rightarrow> first @ '' '' @ py_replace (CHR ''_'') '' '' (py_lower rest)
            | (only_one, None) \<Rightarrow> only_one))"

text \<open>The summary of the last \<^verbatim>\<open>yield Result\<close> of the loop body, with its metric.\<close>

definition final_result :: "DiskAttribute \<Rightarrow> int \<Rightarrow> string \<Rightarrow> State \<times> string list \<Rightarrow> check_item list" where
  "final_result attribute v infotext sh =
     (case sh of
        (state, hints) \<Rightarrow>
          [Result state (if hints \<noteq> [] then infotext @ '' ('' @ py_join '', '' hints @ '')''
                         else infotext),
           Metric (name attribute) v])"

text \<open>
  The block for \<^verbatim>\<open>REALLOCATED_EVENTS\<close>: \<open>None\<close> is the branch of the \<^verbatim>\<open>KeyError\<close>, which
  yields the plain result and goes on with the next attribute.
\<close>

definition cross_check :: "Disk \<Rightarrow> DiskAttribute \<Rightarrow> State \<times> string list \<Rightarrow> (State \<times> string list) option" where
  "cross_check disk attribute sh =
     (case sh of
        (state, hints) \<Rightarrow>
          if attribute = REALLOCATED_EVENTS then
            (case map_of disk (normalized_value_key attribute) of
               None \<Rightarrow> None
             | Some norm_value \<Rightarrow>
                 (case map_of disk (normalized_threshold_key attribute) of
                    None \<Rightarrow> None
                  | Some norm_threshold \<Rightarrow>
                      (let hint = ''normalized value: '' @ py_str norm_value
                       in if norm_value \<le> norm_threshold
                          then Some (CRIT, hints @ [hint @ '' (!!)''])
                          else Some (state, hints @ [hint]))))
          else Some (state, hints))"

text \<open>
  \<^verbatim>\<open>a / b\<close> on two integers is the double nearest to the exact quotient, with a tie going
  to the even mantissa. \<open>double_parts a b\<close>, for positive \<open>a\<close> and \<open>b\<close>, is the mantissa
  \<open>m\<close> of 53 bits and the exponent \<open>x\<close> of that double, whose value is \<open>m * 2 ^ x\<close>:
  \<open>e\<close> is the integer with \<open>2 ^ e \<le> a / b < 2 ^ (e + 1)\<close>, found from the bit lengths.
  The definition covers the quotients in the range of the normal doubles, and the
  divisor of the plugin is the literal \<^verbatim>\<open>60 * 60\<close>: the overflow and the division by zero,
  which raise in Python, and the subnormal doubles are outside it.
\<close>

function bit_length :: "int \<Rightarrow> int" where
  "bit_length n = (if n \<le> 0 then 0 else 1 + bit_length (n div 2))"
  by pat_completeness auto
termination
  by (relation "measure nat") auto

definition scale2 :: "int \<Rightarrow> int \<Rightarrow> int" where
  "scale2 n s = n * 2 ^ nat s"

definition round_half_even :: "int \<Rightarrow> int \<Rightarrow> int" where
  "round_half_even num den =
     (let q = num div den; r = num mod den
      in if den < 2 * r \<or> (2 * r = den \<and> odd q) then q + 1 else q)"

definition double_parts :: "int \<Rightarrow> int \<Rightarrow> int \<times> int" where
  "double_parts a b =
     (let k = bit_length a - bit_length b;
          e = (if scale2 b k \<le> scale2 a (- k) then k else k - 1);
          s = 52 - e
      in (round_half_even (scale2 a s) (scale2 b (- s)), e - 52))"

definition scaled :: "int \<times> int \<Rightarrow> real" where
  "scaled p =
     (case p of
        (m, x) \<Rightarrow> if 0 \<le> x then of_int (m * 2 ^ nat x) else of_int m / 2 ^ nat (- x))"

definition py_truediv :: "int \<Rightarrow> int \<Rightarrow> real" where
  "py_truediv a b =
     (if a = 0 \<or> b = 0 then 0
      else if (a < 0) = (b < 0) then scaled (double_parts \<bar>a\<bar> \<bar>b\<bar>)
      else - scaled (double_parts \<bar>a\<bar> \<bar>b\<bar>))"

text \<open>
  The block for \<^verbatim>\<open>COMMAND_TIMEOUT_COUNTER\<close>. The bound is the double
  \<^verbatim>\<open>MAX_COMMAND_TIMEOUTS_PER_HOUR / (60 * 60)\<close>, and the rate is compared with it as a double.
\<close>

definition rate_check :: "host \<Rightarrow> DiskAttribute \<Rightarrow> int \<Rightarrow> int \<Rightarrow> State \<times> string list \<Rightarrow> error + State \<times> string list" where
  "rate_check h attribute v ref_value sh =
     (if attribute = COMMAND_TIMEOUT_COUNTER then
        (case get_rate h ''cmd_timeout'' v of
           Inl e \<Rightarrow> Inl e
         | Inr rate \<Rightarrow>
             (let state = (if rate < py_truediv MAX_COMMAND_TIMEOUTS_PER_HOUR (60 * 60)
                           then OK else CRIT)
              in Inr (state,
                      if state = OK then []
                      else [''counter increased more than '' @ py_str MAX_COMMAND_TIMEOUTS_PER_HOUR
                            @ '' counts / h (!!). '' @ ''Value during discovery was: ''
                            @ py_str ref_value])))
      else Inr sh)"

text \<open>
  The reference value of the loop body: the baseline from \<open>params\<close>, replaced for
  \<^verbatim>\<open>AVAILABLE_SPARE\<close> by the index \<^verbatim>\<open>disk["Available_Spare_Threshold"]\<close>.
\<close>

definition reference_value :: "(string \<times> int) list \<Rightarrow> Disk \<Rightarrow> DiskAttribute \<Rightarrow> error + int option" where
  "reference_value params disk attribute =
     (if attribute = AVAILABLE_SPARE then
        (case map_of disk ''Available_Spare_Threshold'' of
           None \<Rightarrow> Inl (KeyError ''Available_Spare_Threshold'')
         | Some t \<Rightarrow> Inr (Some t))
      else Inr (map_of params (name attribute)))"

text \<open>The body of the loop of \<^verbatim>\<open>check_smart_stats\<close> for one attribute: what it yields.\<close>

definition check_attribute :: "host \<Rightarrow> (string \<times> int) list \<Rightarrow> Disk \<Rightarrow> DiskAttribute \<Rightarrow> error + check_item list" where
  "check_attribute h params disk attribute =
     (if attribute = TEMPERATURE then Inr []
      else (case map_of disk (name attribute) of
              None \<Rightarrow> Inr []
            | Some v \<Rightarrow>
                (let infotext = display_attribute_name attribute @ '': '' @ renderer h attribute v
                 in (case reference_value params disk attribute of
                       Inl e \<Rightarrow> Inl e
                     | Inr None \<Rightarrow> Inr [Result OK infotext, Metric (name attribute) v]
                     | Inr (Some ref_value) \<Rightarrow>
                         (let state = (if attribute = AVAILABLE_SPARE
                                       then (if v < ref_value then CRIT else OK)
                                       else (if v > ref_value then CRIT else OK));
                              hints = (if state = OK then []
                                       else [''during discovery: '' @ py_str ref_value @ '' (!!)''])
                          in (case cross_check disk attribute (state, hints) of
                                None \<Rightarrow> Inr [Result OK infotext, Metric (name attribute) v]
                              | Some sh \<Rightarrow>
                                  (case rate_check h attribute v ref_value sh of
                                     Inl e \<Rightarrow> Inl e
                                   | Inr sh' \<Rightarrow> Inr (final_result attribute v infotext sh'))))))))"

fun check_attributes :: "host \<Rightarrow> (string \<times> int) list \<Rightarrow> Disk \<Rightarrow> DiskAttribute list \<Rightarrow> error + check_item list" where
  "check_attributes h params disk [] = Inr []"
| "check_attributes h params disk (attribute # rest) =
     (case check_attribute h params disk attribute of
        Inl e \<Rightarrow> Inl e
      | Inr out \<Rightarrow>
          (case check_attributes h params disk rest of
             Inl e \<Rightarrow> Inl e
           | Inr outs \<Rightarrow> Inr (out @ outs)))"

definition check_smart_stats :: "host \<Rightarrow> string \<Rightarrow> (string \<times> int) list \<Rightarrow> Disks \<Rightarrow> error + check_item list" where
  "check_smart_stats h item params section =
     (case map_of section item of
        None \<Rightarrow> Inr []
      | Some disk \<Rightarrow> check_attributes h params disk all_attributes)"

subsection \<open>Reading results, and the inputs of the examples\<close>

text \<open>
  What a list of yielded items says about one attribute: \<open>result_for n outs\<close> is the state
  and summary of the first result that is directly followed by the metric named \<open>n\<close>,
  and \<open>metric_for n outs\<close> is the value of the first metric of that name.
\<close>

fun result_for :: "string \<Rightarrow> check_item list \<Rightarrow> (State \<times> string) option" where
  "result_for n [] = None"
| "result_for n (x # rest) =
     (case (x, rest) of
        (Result s t, Metric m v # rest') \<Rightarrow> if m = n then Some (s, t) else result_for n rest
      | _ \<Rightarrow> result_for n rest)"

fun metric_for :: "string \<Rightarrow> check_item list \<Rightarrow> int option" where
  "metric_for n [] = None"
| "metric_for n (Metric m v # rest) = (if m = n then Some v else metric_for n rest)"
| "metric_for n (Result s t # rest) = metric_for n rest"

text \<open>The value that \<^verbatim>\<open>_set_int_or_zero\<close> stores for a raw string.\<close>

definition int_or_zero :: "string \<Rightarrow> int" where
  "int_or_zero v = (case py_int v of Some i \<Rightarrow> i | None \<Rightarrow> 0)"

text \<open>The value of attribute \<open>k\<close> of device \<open>p\<close> in a section, if there is one.\<close>

definition reading :: "Disks \<Rightarrow> string \<Rightarrow> string \<Rightarrow> int option" where
  "reading disks p k = (case map_of disks p of None \<Rightarrow> None | Some disk \<Rightarrow> map_of disk k)"

text \<open>A tabular line of the device \<^verbatim>\<open>/dev/sda\<close> as the agent of the worked example sends it.\<close>

definition sda_line :: "string \<Rightarrow> string \<Rightarrow> string \<Rightarrow> string \<Rightarrow> string \<Rightarrow> string \<Rightarrow> string list" where
  "sda_line ID attribute_name flag v threshold raw_value =
     [''/dev/sda'', ''ATA'', ''WDC_SSC-D0128SC-'', ID, attribute_name, flag, v, ''100'',
      threshold, ''Pre-fail'', ''Always'', ''-'', raw_value]"

text \<open>The string table of the doctest of \<^verbatim>\<open>parse_raw_values\<close>.\<close>

definition worked_example :: "string list list" where
  "worked_example =
    [ [''/dev/sda'', ''ATA'', ''WDC_SSC-D0128SC-'', ''1'', ''Raw_Read_Error_Rate'',
      ''0x000b'', ''100'', ''100'', ''050'', ''Pre-fail'', ''Always'', ''-'', ''16777215''],
     [''/dev/sda'', ''ATA'', ''WDC_SSC-D0128SC-'', ''3'', ''Spin_Up_Time'',
      ''0x0007'', ''100'', ''100'', ''050'', ''Pre-fail'', ''Always'', ''-'', ''0''],
     [''/dev/sda'', ''ATA'', ''WDC_SSC-D0128SC-'', ''5'', ''Reallocated_Sector_Ct'',
      ''0x0013'', ''100'', ''100'', ''050'', ''Pre-fail'', ''Always'', ''-'', ''0''],
     [''/dev/sda'', ''ATA'', ''WDC_SSC-D0128SC-'', ''7'', ''Seek_Error_Rate'',
      ''0x000b'', ''100'', ''100'', ''050'', ''Pre-fail'', ''Always'', ''-'', ''0''],
     [''/dev/sda'', ''ATA'', ''WDC_SSC-D0128SC-'', ''9'', ''Power_On_Hours'',
      ''0x0012'', ''100'', ''100'', ''000'', ''Old_age'', ''Always'', ''-'', ''1408''],
     [''/dev/sda'', ''ATA'', ''WDC_SSC-D0128SC-'', ''10'', ''Spin_Retry_Count'',
      ''0x0013'', ''100'', ''100'', ''050'', ''Pre-fail'', ''Always'', ''-'', ''0''],
     [''/dev/sda'', ''ATA'', ''WDC_SSC-D0128SC-'', ''12'', ''Power_Cycle_Count'',
      ''0x0012'', ''100'', ''100'', ''000'', ''Old_age'', ''Always'', ''-'', ''523''],
     [''/dev/sda'', ''ATA'', ''WDC_SSC-D0128SC-'', ''168'', ''Unknown_Attribute'',
      ''0x0012'', ''100'', ''100'', ''000'', ''Old_age'', ''Always'', ''-'', ''1''],
     [''/dev/sda'', ''ATA'', ''WDC_SSC-D0128SC-'', ''175'', ''Program_Fail_Count_Chip'',
      ''0x0003'', ''100'', ''100'', ''010'', ''Pre-fail'', ''Always'', ''-'', ''0''],
     [''/dev/sda'', ''ATA'', ''WDC_SSC-D0128SC-'', ''192'', ''Power-Off_Retract_Count'',
      ''0x0012'', ''100'', ''100'', ''000'', ''Old_age'', ''Always'', ''-'', ''0''],
     [''/dev/sda'', ''ATA'', ''WDC_SSC-D0128SC-'', ''194'', ''Temperature_Celsius'',
      ''0x0022'', ''040'', ''100'', ''000'', ''Old_age'', ''Always'', ''-'', ''40'',
      ''(Lifetime'', ''Min/Max'', ''30/60)''],
     [''/dev/sda'', ''ATA'', ''WDC_SSC-D0128SC-'', ''197'', ''Current_Pending_Sector'',
      ''0x0012'', ''100'', ''100'', ''000'', ''Old_age'', ''Always'', ''-'', ''0''],
     [''/dev/sda'', ''ATA'', ''WDC_SSC-D0128SC-'', ''240'', ''Head_Flying_Hours'',
      ''0x0013'', ''100'', ''100'', ''050'', ''Pre-fail'', ''Always'', ''-'', ''0''],
     [''/dev/sda'', ''ATA'', ''WDC_SSC-D0128SC-'', ''170'', ''Unknown_Attribute'',
      ''0x0003'', ''100'', ''100'', ''010'', ''Pre-fail'', ''Always'', ''-'', ''1769478''],
     [''/dev/sda'', ''ATA'', ''WDC_SSC-D0128SC-'', ''173'', ''Unknown_Attribute'',
      ''0x0012'', ''100'', ''100'', ''000'', ''Old_age'', ''Always'', ''-'', ''4217788040605''] ]"

text \<open>The first line of a record of the key/value dialect: it names the device.\<close>

definition nvme_header :: "string list" where
  "nvme_header = [''/dev/nvme0n1'', ''NVME'', ''SAMSUNG'']"

text \<open>
  A host for the examples: every renderer prints the plain number, and the rate of the
  command timeouts is \<open>r\<close> per second.
\<close>

definition host_with_rate :: "real \<Rightarrow> host" where
  "host_with_rate r =
     \<lparr>timespan = py_str, percent = py_str, bytes = py_str, get_rate = (\<lambda>key v. Inr r)\<rparr>"

text \<open>
  A section of two devices: the first has two attributes that are captured at discovery,
  the second has none.
\<close>

definition two_disks :: Disks where
  "two_disks =
     [(''/dev/sda'', [(''Reallocated_Sectors'', 2), (''Power_On_Hours'', 1408), (''Pending_Sectors'', 0)]),
      (''/dev/sdb'', [(''Power_On_Hours'', 7), (''Temperature'', 40)])]"

section \<open>Properties\<close>

subsection \<open>The registry and the loop of the check\<close>

lemma distinct_names: "distinct (map name all_attributes)"
  unfolding all_attributes_def by simp

lemma set_all_attributes: "a \<in> set all_attributes"
  unfolding all_attributes_def by (cases a) simp_all

lemma check_attribute_shape:
  "check_attribute h params disk a = Inr out \<Longrightarrow>
     out = [] \<or> (\<exists>s t v. out = [Result s t, Metric (name a) v])"
  by (auto simp: check_attribute_def final_result_def Let_def
           split: if_splits option.splits sum.splits prod.splits)

lemma result_for_skip:
  "m \<noteq> n \<Longrightarrow> result_for n (Result s t # Metric m v # outs) = result_for n outs"
  by (cases outs) (auto split: check_item.splits list.splits)

text \<open>
  Each attribute yields nothing or one result with its metric, and the names of the
  attributes differ: so what the loop yields about an attribute is what the body yields
  for it.
\<close>

lemma result_for_loop:
  "check_attributes h params disk as = Inr outs \<Longrightarrow> distinct (map name as) \<Longrightarrow> a \<in> set as \<Longrightarrow>
   check_attribute h params disk a = Inr [Result s t, Metric (name a) v] \<Longrightarrow>
   result_for (name a) outs = Some (s, t) \<and> metric_for (name a) outs = Some v"
proof (induction as arbitrary: outs)
  case Nil
  then show ?case by simp
next
  case (Cons b bs)
  from Cons.prems(1) obtain out rest where
    out: "check_attribute h params disk b = Inr out" and
    rest: "check_attributes h params disk bs = Inr rest" and
    outs: "outs = out @ rest"
    by (auto split: sum.splits)
  show ?case
  proof (cases "b = a")
    case True
    with out Cons.prems(4) have "out = [Result s t, Metric (name a) v]" by simp
    with outs show ?thesis by simp
  next
    case False
    with Cons.prems have a: "a \<in> set bs" and d: "distinct (map name bs)"
      and ne: "name b \<noteq> name a"
      by auto
    from Cons.IH [OF rest d a Cons.prems(4)]
    have ih: "result_for (name a) rest = Some (s, t) \<and> metric_for (name a) rest = Some v" .
    from check_attribute_shape [OF out] show ?thesis
    proof
      assume "out = []"
      with ih outs show ?thesis by simp
    next
      assume "\<exists>s t v. out = [Result s t, Metric (name b) v]"
      then obtain s' t' v' where "out = [Result s' t', Metric (name b) v']" by blast
      with ih outs ne show ?thesis by (simp add: result_for_skip del: result_for.simps)
    qed
  qed
qed

lemma check_smart_stats_result:
  assumes "map_of section item = Some disk"
    and "check_attribute h params disk a = Inr [Result s t, Metric (name a) v]"
    and "check_smart_stats h item params section = Inr outs"
  shows "result_for (name a) outs = Some (s, t) \<and> metric_for (name a) outs = Some v"
proof -
  from assms(1,3) have "check_attributes h params disk all_attributes = Inr outs"
    by (simp add: check_smart_stats_def)
  from result_for_loop [OF this distinct_names set_all_attributes assms(2)]
  show ?thesis .
qed

lemma check_attributes_error:
  "check_attributes h params disk as = Inl e \<Longrightarrow>
     \<exists>a \<in> set as. check_attribute h params disk a = Inl e"
  by (induction as) (auto split: sum.splits)

lemma check_attributes_fails:
  "a \<in> set as \<Longrightarrow> check_attribute h params disk a = Inl e \<Longrightarrow>
     \<exists>e'. check_attributes h params disk as = Inl e'"
  by (induction as) (auto split: sum.splits)

text \<open>
  The body raises in two places only: the index of the spare threshold, and the call of
  the rate collaborator.
\<close>

lemma check_attribute_error:
  "check_attribute h params disk a = Inl e \<Longrightarrow>
     (a = AVAILABLE_SPARE \<and> e = KeyError ''Available_Spare_Threshold'') \<or>
     (a = COMMAND_TIMEOUT_COUNTER \<and>
        (\<exists>c. map_of disk ''Command_Timeout_Counter'' = Some c \<and> get_rate h ''cmd_timeout'' c = Inl e))"
  by (auto simp: check_attribute_def reference_value_def rate_check_def cross_check_def Let_def
           split: if_splits option.splits sum.splits prod.splits)

lemma py_str_100: "py_str 100 = ''100''"
  by code_simp

text \<open>
  A raising body tells which attribute it was and why: the available spare without its
  threshold, or the command timeout counter with a baseline and a raising collaborator.
\<close>

lemma check_attribute_error_cause:
  "check_attribute h params disk a = Inl e \<Longrightarrow>
     (e = KeyError ''Available_Spare_Threshold''
        \<and> map_of disk ''Available_Spare'' \<noteq> None
        \<and> map_of disk ''Available_Spare_Threshold'' = None) \<or>
     (\<exists>c b. map_of disk ''Command_Timeout_Counter'' = Some c
            \<and> map_of params ''Command_Timeout_Counter'' = Some b
            \<and> get_rate h ''cmd_timeout'' c = Inl e)"
  by (auto simp: check_attribute_def reference_value_def rate_check_def cross_check_def Let_def
           split: if_splits option.splits sum.splits prod.splits)

lemma check_smart_stats_error_cause:
  assumes "map_of section item = Some disk"
    and "check_smart_stats h item params section = Inl e"
  shows "(e = KeyError ''Available_Spare_Threshold''
            \<and> map_of disk ''Available_Spare'' \<noteq> None
            \<and> map_of disk ''Available_Spare_Threshold'' = None) \<or>
         (\<exists>c b. map_of disk ''Command_Timeout_Counter'' = Some c
                \<and> map_of params ''Command_Timeout_Counter'' = Some b
                \<and> get_rate h ''cmd_timeout'' c = Inl e)"
proof -
  from assms have "check_attributes h params disk all_attributes = Inl e"
    by (simp add: check_smart_stats_def)
  from check_attributes_error [OF this] obtain a
    where "check_attribute h params disk a = Inl e" by blast
  then show ?thesis by (rule check_attribute_error_cause)
qed

text \<open>
  The bound of the command timeouts: the double \<^verbatim>\<open>100 / (60 * 60)\<close> is
  \<open>2001599834386887 / 2 ^ 56\<close>, printed \<^verbatim>\<open>0.027777777777777776\<close>. It has a mantissa of 53
  bits, it lies below the exact quotient, and it is nearer to it than half a unit of its
  last place. The rates of 50 and of 100000 counts in 3600 seconds are doubles likewise.
\<close>

lemma double_parts_100_3600: "double_parts 100 3600 = (8006399337547548, - 58)"
  by code_simp

lemma double_parts_50_3600: "double_parts 50 3600 = (8006399337547548, - 59)"
  by code_simp

lemma double_parts_100000_3600: "double_parts 100000 3600 = (7818749353073778, - 48)"
  by code_simp

lemma truediv_100_3600: "py_truediv 100 3600 = 2001599834386887 / 2 ^ 56"
  by (simp add: py_truediv_def scaled_def double_parts_100_3600)

lemma truediv_50_3600: "py_truediv 50 3600 = 2001599834386887 / 2 ^ 57"
  by (simp add: py_truediv_def scaled_def double_parts_50_3600)

lemma truediv_100000_3600: "py_truediv 100000 3600 = 3909374676536889 / 2 ^ 47"
  by (simp add: py_truediv_def scaled_def double_parts_100000_3600)

lemma bound_is_nearest_double:
  "(2 :: int) ^ 52 \<le> 8006399337547548 \<and> (8006399337547548 :: int) < 2 ^ 53 \<and>
   (2001599834386887 / 2 ^ 56 :: real) = 8006399337547548 / 2 ^ 58 \<and>
   (2001599834386887 / 2 ^ 56 :: real) < 100 / 3600 \<and>
   \<bar>(2001599834386887 / 2 ^ 56 :: real) - 100 / 3600\<bar> < 1 / 2 ^ 59"
  by simp

lemma rate_bound: "py_truediv MAX_COMMAND_TIMEOUTS_PER_HOUR (60 * 60) = 2001599834386887 / 2 ^ 56"
  by (simp add: MAX_COMMAND_TIMEOUTS_PER_HOUR_def truediv_100_3600)

subsection \<open>The worked example of the parser\<close>

text \<open>
  Claim C3. Parsing the fifteen tabular lines of the device \<^verbatim>\<open>/dev/sda\<close> of the worked
  example gives one device with twelve attributes: the three lines named
  \<^verbatim>\<open>Unknown_Attribute\<close> leave no entry, the codes of the registry appear under their
  canonical names, the other lines under their own names, and every raw value is stored
  as the integer that it denotes. The entries are listed in the order of insertion.
\<close>

theorem parse_worked_example:
  "parse_raw_values worked_example =
     Inr [(''/dev/sda'',
           [(''Raw_Read_Error_Rate'', 16777215), (''Spin_Up_Time'', 0),
            (''Reallocated_Sectors'', 0), (''Seek_Error_Rate'', 0),
            (''Power_On_Hours'', 1408), (''Spin_Retries'', 0), (''Power_Cycles'', 523),
            (''Program_Fail_Count_Chip'', 0), (''Power-Off_Retract_Count'', 0),
            (''Temperature'', 40), (''Pending_Sectors'', 0), (''Head_Flying_Hours'', 0)])]"
  unfolding worked_example_def by code_simp

subsection \<open>The check: attributes without a baseline\<close>

lemma display_reallocated_events: "display_attribute_name REALLOCATED_EVENTS = ''Reallocated events''"
  by code_simp

lemma display_command_timeout: "display_attribute_name COMMAND_TIMEOUT_COUNTER = ''Command timeout counter''"
  by code_simp

lemma display_available_spare: "display_attribute_name AVAILABLE_SPARE = ''Available spare''"
  by code_simp

text \<open>
  Claim C5, as stated, fails for the temperature: \<^verbatim>\<open>TEMPERATURE\<close> is a member of the
  registry, it is never captured at discovery and so has no baseline, and the check
  skips it before anything is yielded. A reading with nothing but a temperature gets
  neither a verdict nor a metric.
\<close>

theorem temperature_counterexample:
  "map_of [] (name TEMPERATURE) = (None :: int option) \<and>
   check_smart_stats (host_with_rate 0) ''/dev/sda'' [] [(''/dev/sda'', [(''Temperature'', 40)])] = Inr [] \<and>
   result_for (name TEMPERATURE) [] = None \<and> metric_for (name TEMPERATURE) [] = None"
  by (simp add: check_smart_stats_def all_attributes_def check_attribute_def)

text \<open>
  Claim C5, amended. For every attribute of the registry other than the temperature, the
  command timeout counter and the available spare: when the reading has a value for it
  and \<open>params\<close> has none, the body of the loop yields the state \<open>OK\<close> with the rendered
  value and the metric with the raw value, and it raises nothing. So a check that
  returns reports exactly this for the attribute, and a check that raises does so for
  another attribute.
\<close>

theorem missing_baseline_is_normal:
  assumes "map_of section item = Some disk"
    and "map_of disk (name a) = Some v"
    and "map_of params (name a) = None"
    and "a \<noteq> TEMPERATURE" and "a \<noteq> COMMAND_TIMEOUT_COUNTER" and "a \<noteq> AVAILABLE_SPARE"
  shows "check_attribute h params disk a =
           Inr [Result OK (display_attribute_name a @ '': '' @ renderer h a v), Metric (name a) v]
       \<and> (\<forall>outs. check_smart_stats h item params section = Inr outs \<longrightarrow>
             result_for (name a) outs = Some (OK, display_attribute_name a @ '': '' @ renderer h a v)
           \<and> metric_for (name a) outs = Some v)
       \<and> (\<forall>e. check_smart_stats h item params section = Inl e \<longrightarrow>
             (\<exists>a'. a' \<noteq> a \<and> check_attribute h params disk a' = Inl e))"
proof -
  have body: "check_attribute h params disk a =
      Inr [Result OK (display_attribute_name a @ '': '' @ renderer h a v), Metric (name a) v]"
    using assms(2-6) by (simp add: check_attribute_def reference_value_def)
  have ok: "\<forall>outs. check_smart_stats h item params section = Inr outs \<longrightarrow>
             result_for (name a) outs = Some (OK, display_attribute_name a @ '': '' @ renderer h a v)
           \<and> metric_for (name a) outs = Some v"
    using check_smart_stats_result [OF assms(1) body] by blast
  have err: "\<forall>e. check_smart_stats h item params section = Inl e \<longrightarrow>
             (\<exists>a'. a' \<noteq> a \<and> check_attribute h params disk a' = Inl e)"
  proof (intro allI impI)
    fix e
    assume "check_smart_stats h item params section = Inl e"
    with assms(1) have "check_attributes h params disk all_attributes = Inl e"
      by (simp add: check_smart_stats_def)
    from check_attributes_error [OF this] obtain a'
      where a': "check_attribute h params disk a' = Inl e" by blast
    with body have "a' \<noteq> a" by auto
    with a' show "\<exists>a'. a' \<noteq> a \<and> check_attribute h params disk a' = Inl e" by blast
  qed
  from body ok err show ?thesis by blast
qed

theorem missing_baseline_is_normal_witness:
  "check_attribute (host_with_rate 0) [] [(''Reallocated_Sectors'', 3)] REALLOCATED_SECTORS =
     Inr [Result OK ''Reallocated sectors: 3'', Metric ''Reallocated_Sectors'' 3]
   \<and> check_smart_stats (host_with_rate 0) ''/dev/sda'' []
        [(''/dev/sda'', [(''Reallocated_Sectors'', 3)])] =
     Inr [Result OK ''Reallocated sectors: 3'', Metric ''Reallocated_Sectors'' 3]"
proof -
  have h1: "map_of [(''/dev/sda'', [(''Reallocated_Sectors'', 3::int)])] ''/dev/sda'' =
      Some [(''Reallocated_Sectors'', 3)]"
    by simp
  have h2: "map_of [(''Reallocated_Sectors'', 3::int)] (name REALLOCATED_SECTORS) = Some 3"
    by simp
  have h3: "map_of ([] :: (string \<times> int) list) (name REALLOCATED_SECTORS) = None"
    by simp
  have rendered: "display_attribute_name REALLOCATED_SECTORS @ '': ''
      @ renderer (host_with_rate 0) REALLOCATED_SECTORS 3 = ''Reallocated sectors: 3''"
    by code_simp
  have run: "check_smart_stats (host_with_rate 0) ''/dev/sda'' []
        [(''/dev/sda'', [(''Reallocated_Sectors'', 3)])] =
     Inr [Result OK ''Reallocated sectors: 3'', Metric ''Reallocated_Sectors'' 3]"
    by code_simp
  from missing_baseline_is_normal [OF h1 h2 h3, of "host_with_rate 0"] rendered run
  show ?thesis by simp
qed

subsection \<open>The check: the available spare\<close>

text \<open>
  Claim C4. When the reading has a value \<open>v\<close> for \<^verbatim>\<open>Available_Spare\<close> and a value \<open>t\<close> for
  \<^verbatim>\<open>Available_Spare_Threshold\<close>, the state that the body of the loop yields for the
  available spare is \<open>CRIT\<close> if \<open>v < t\<close> and \<open>OK\<close> otherwise, and the hint of the critical
  case shows \<open>t\<close>. The check returns and reports this state and the metric \<open>v\<close> for the
  available spare; the one exception is a rate collaborator that raises for a command
  timeout counter with a baseline, and then the check raises what the collaborator
  raised. The body yields the same for any two parameter sets, so the baseline of the
  discovery plays no part.
\<close>

theorem available_spare_inverted:
  assumes "map_of section item = Some disk"
    and "map_of disk ''Available_Spare'' = Some v"
    and "map_of disk ''Available_Spare_Threshold'' = Some t"
  shows "check_attribute h params disk AVAILABLE_SPARE =
           Inr [Result (if v < t then CRIT else OK)
                  (''Available spare: '' @ percent h v @
                     (if v < t then '' (during discovery: '' @ py_str t @ '' (!!))'' else [])),
                Metric ''Available_Spare'' v]
       \<and> ((\<exists>outs. check_smart_stats h item params section = Inr outs
               \<and> result_for ''Available_Spare'' outs =
                   Some (if v < t then CRIT else OK,
                         ''Available spare: '' @ percent h v @
                           (if v < t then '' (during discovery: '' @ py_str t @ '' (!!))'' else []))
               \<and> metric_for ''Available_Spare'' outs = Some v)
          \<or> (\<exists>c b e. map_of disk ''Command_Timeout_Counter'' = Some c
                 \<and> map_of params ''Command_Timeout_Counter'' = Some b
                 \<and> get_rate h ''cmd_timeout'' c = Inl e
                 \<and> check_smart_stats h item params section = Inl e))
       \<and> check_attribute h params' disk AVAILABLE_SPARE = check_attribute h params disk AVAILABLE_SPARE"
proof -
  have body: "\<And>p. check_attribute h p disk AVAILABLE_SPARE =
           Inr [Result (if v < t then CRIT else OK)
                  (''Available spare: '' @ percent h v @
                     (if v < t then '' (during discovery: '' @ py_str t @ '' (!!))'' else [])),
                Metric (name AVAILABLE_SPARE) v]"
    using assms(2,3)
    by (simp add: check_attribute_def reference_value_def cross_check_def rate_check_def
          final_result_def display_available_spare)
  have whole: "(\<exists>outs. check_smart_stats h item params section = Inr outs
               \<and> result_for ''Available_Spare'' outs =
                   Some (if v < t then CRIT else OK,
                         ''Available spare: '' @ percent h v @
                           (if v < t then '' (during discovery: '' @ py_str t @ '' (!!))'' else []))
               \<and> metric_for ''Available_Spare'' outs = Some v)
          \<or> (\<exists>c b e. map_of disk ''Command_Timeout_Counter'' = Some c
                 \<and> map_of params ''Command_Timeout_Counter'' = Some b
                 \<and> get_rate h ''cmd_timeout'' c = Inl e
                 \<and> check_smart_stats h item params section = Inl e)"
  proof (cases "check_smart_stats h item params section")
    case (Inl e)
    from check_smart_stats_error_cause [OF assms(1) Inl] assms(3) Inl
    show ?thesis by auto
  next
    case (Inr outs)
    from check_smart_stats_result [OF assms(1) body [of params] Inr] Inr
    show ?thesis by simp
  qed
  from body [of params] body [of params'] whole show ?thesis by simp
qed

theorem available_spare_inverted_witness:
  "(\<exists>outs. check_smart_stats (host_with_rate 0) ''/dev/nvme0n1'' [(''Available_Spare'', 0)]
              [(''/dev/nvme0n1'', [(''Available_Spare'', 5), (''Available_Spare_Threshold'', 10)])] = Inr outs
          \<and> result_for ''Available_Spare'' outs =
              Some (CRIT, ''Available spare: 5 (during discovery: 10 (!!))'')
          \<and> metric_for ''Available_Spare'' outs = Some 5)
   \<and> (\<exists>outs. check_smart_stats (host_with_rate 0) ''/dev/nvme0n1'' [(''Available_Spare'', 0)]
              [(''/dev/nvme0n1'', [(''Available_Spare'', 10), (''Available_Spare_Threshold'', 10)])] = Inr outs
          \<and> result_for ''Available_Spare'' outs = Some (OK, ''Available spare: 10'')
          \<and> metric_for ''Available_Spare'' outs = Some 10)
   \<and> check_smart_stats (host_with_rate 0) ''/dev/nvme0n1'' [(''Available_Spare'', 0)]
        [(''/dev/nvme0n1'', [(''Available_Spare'', 5), (''Available_Spare_Threshold'', 10)])] =
      Inr [Result CRIT ''Available spare: 5 (during discovery: 10 (!!))'', Metric ''Available_Spare'' 5]
   \<and> check_smart_stats (host_with_rate 0) ''/dev/nvme0n1'' [(''Available_Spare'', 0)]
        [(''/dev/nvme0n1'', [(''Available_Spare'', 10), (''Available_Spare_Threshold'', 10)])] =
      Inr [Result OK ''Available spare: 10'', Metric ''Available_Spare'' 10]"
proof -
  have s1: "map_of [(''/dev/nvme0n1'', [(''Available_Spare'', 5::int), (''Available_Spare_Threshold'', 10)])]
      ''/dev/nvme0n1'' = Some [(''Available_Spare'', 5), (''Available_Spare_Threshold'', 10)]"
    by simp
  have s2: "map_of [(''/dev/nvme0n1'', [(''Available_Spare'', 10::int), (''Available_Spare_Threshold'', 10)])]
      ''/dev/nvme0n1'' = Some [(''Available_Spare'', 10), (''Available_Spare_Threshold'', 10)]"
    by simp
  have v1: "map_of [(''Available_Spare'', 5::int), (''Available_Spare_Threshold'', 10)] ''Available_Spare'' = Some 5"
    by simp
  have t1: "map_of [(''Available_Spare'', 5::int), (''Available_Spare_Threshold'', 10)]
      ''Available_Spare_Threshold'' = Some 10"
    by simp
  have v2: "map_of [(''Available_Spare'', 10::int), (''Available_Spare_Threshold'', 10)] ''Available_Spare'' = Some 10"
    by simp
  have t2: "map_of [(''Available_Spare'', 10::int), (''Available_Spare_Threshold'', 10)]
      ''Available_Spare_Threshold'' = Some 10"
    by simp
  have r: "py_str 5 = ''5''" "py_str 10 = ''10''"
    by code_simp+
  have g: "\<And>c e. get_rate (host_with_rate 0) ''cmd_timeout'' c \<noteq> Inl e"
    by (simp add: host_with_rate_def)
  have p: "percent (host_with_rate 0) = py_str"
    by (simp add: host_with_rate_def)
  have run1: "check_smart_stats (host_with_rate 0) ''/dev/nvme0n1'' [(''Available_Spare'', 0)]
        [(''/dev/nvme0n1'', [(''Available_Spare'', 5), (''Available_Spare_Threshold'', 10)])] =
      Inr [Result CRIT ''Available spare: 5 (during discovery: 10 (!!))'', Metric ''Available_Spare'' 5]"
    by code_simp
  have run2: "check_smart_stats (host_with_rate 0) ''/dev/nvme0n1'' [(''Available_Spare'', 0)]
        [(''/dev/nvme0n1'', [(''Available_Spare'', 10), (''Available_Spare_Threshold'', 10)])] =
      Inr [Result OK ''Available spare: 10'', Metric ''Available_Spare'' 10]"
    by code_simp
  from available_spare_inverted [OF s1 v1 t1, of "host_with_rate 0" "[(''Available_Spare'', 0)]", THEN conjunct2, THEN conjunct1]
    g r p
  have w1: "\<exists>outs. check_smart_stats (host_with_rate 0) ''/dev/nvme0n1'' [(''Available_Spare'', 0)]
              [(''/dev/nvme0n1'', [(''Available_Spare'', 5), (''Available_Spare_Threshold'', 10)])] = Inr outs
          \<and> result_for ''Available_Spare'' outs =
              Some (CRIT, ''Available spare: 5 (during discovery: 10 (!!))'')
          \<and> metric_for ''Available_Spare'' outs = Some 5"
    by simp
  from available_spare_inverted [OF s2 v2 t2, of "host_with_rate 0" "[(''Available_Spare'', 0)]", THEN conjunct2, THEN conjunct1]
    g r p
  have w2: "\<exists>outs. check_smart_stats (host_with_rate 0) ''/dev/nvme0n1'' [(''Available_Spare'', 0)]
              [(''/dev/nvme0n1'', [(''Available_Spare'', 10), (''Available_Spare_Threshold'', 10)])] = Inr outs
          \<and> result_for ''Available_Spare'' outs = Some (OK, ''Available spare: 10'')
          \<and> metric_for ''Available_Spare'' outs = Some 10"
    by simp
  from w1 w2 run1 run2 show ?thesis by (intro conjI)
qed

text \<open>
  Claim C10. When the reading has a value for \<^verbatim>\<open>Available_Spare\<close> and no key
  \<^verbatim>\<open>Available_Spare_Threshold\<close>, the body of the loop raises \<^verbatim>\<open>KeyError\<close> for the available
  spare whatever the parameters are, and the check as a whole raises: it returns no list
  of results. The exception that leaves the check is this \<^verbatim>\<open>KeyError\<close>, unless the rate
  collaborator has raised for the command timeout counter, which comes earlier in the
  enumeration.
\<close>

theorem missing_spare_threshold_raises:
  assumes "map_of section item = Some disk"
    and "map_of disk ''Available_Spare'' = Some v"
    and "map_of disk ''Available_Spare_Threshold'' = None"
  shows "check_attribute h params disk AVAILABLE_SPARE = Inl (KeyError ''Available_Spare_Threshold'')
       \<and> (\<exists>e. check_smart_stats h item params section = Inl e
              \<and> (e = KeyError ''Available_Spare_Threshold''
                 \<or> (\<exists>c. map_of disk ''Command_Timeout_Counter'' = Some c
                         \<and> get_rate h ''cmd_timeout'' c = Inl e)))"
proof -
  have body: "check_attribute h params disk AVAILABLE_SPARE = Inl (KeyError ''Available_Spare_Threshold'')"
    using assms(2,3) by (simp add: check_attribute_def reference_value_def)
  from check_attributes_fails [OF set_all_attributes body]
  obtain e where e: "check_attributes h params disk all_attributes = Inl e" by blast
  from check_attributes_error [OF e] obtain a
    where "check_attribute h params disk a = Inl e" by blast
  from check_attribute_error [OF this]
  have "e = KeyError ''Available_Spare_Threshold''
      \<or> (\<exists>c. map_of disk ''Command_Timeout_Counter'' = Some c \<and> get_rate h ''cmd_timeout'' c = Inl e)"
    by blast
  with e assms(1) body show ?thesis by (simp add: check_smart_stats_def)
qed

theorem missing_spare_threshold_raises_witness:
  "check_smart_stats (host_with_rate 0) ''/dev/nvme0n1'' []
     [(''/dev/nvme0n1'', [(''Available_Spare'', 100)])] = Inl (KeyError ''Available_Spare_Threshold'')"
proof -
  have h1: "map_of [(''/dev/nvme0n1'', [(''Available_Spare'', 100::int)])] ''/dev/nvme0n1'' =
      Some [(''Available_Spare'', 100)]"
    by simp
  have h2: "map_of [(''Available_Spare'', 100::int)] ''Available_Spare'' = Some 100"
    by simp
  have h3: "map_of [(''Available_Spare'', 100::int)] ''Available_Spare_Threshold'' = None"
    by simp
  from missing_spare_threshold_raises [OF h1 h2 h3, of "host_with_rate 0" "[]"]
  show ?thesis by (auto simp: host_with_rate_def)
qed

subsection \<open>The check: the command timeout counter\<close>

text \<open>
  Claim C2, as stated, fails at the bound itself: the source yields \<open>OK\<close> when the rate
  is below the double \<^verbatim>\<open>MAX_COMMAND_TIMEOUTS_PER_HOUR / (60 * 60)\<close> and \<open>CRIT\<close> otherwise.
  The counter went from 0 at discovery to 100 within 3600 seconds, and the collaborator
  reports the double \<^verbatim>\<open>100 / 3600\<close>: this rate is equal to the bound and below the exact
  quotient, so it exceeds neither, and the state is \<open>CRIT\<close>.
\<close>

theorem command_timeout_bound_counterexample:
  "get_rate (host_with_rate (py_truediv 100 3600)) ''cmd_timeout'' 100 = Inr (py_truediv 100 3600) \<and>
   py_truediv 100 3600 = 2001599834386887 / 2 ^ 56 \<and>
   \<not> (py_truediv 100 3600 > py_truediv MAX_COMMAND_TIMEOUTS_PER_HOUR (60 * 60)) \<and>
   \<not> (py_truediv 100 3600 > 100 / 3600) \<and>
   check_smart_stats (host_with_rate (py_truediv 100 3600)) ''/dev/sda''
     [(''Command_Timeout_Counter'', 0)]
     [(''/dev/sda'', [(''Command_Timeout_Counter'', 100)])] =
   Inr [Result CRIT
          ''Command timeout counter: 100 (counter increased more than 100 counts / h (!!). Value during discovery was: 0)'',
        Metric ''Command_Timeout_Counter'' 100]"
proof -
  have zero: "py_str 0 = ''0''"
    by code_simp
  have run: "check_smart_stats (host_with_rate (py_truediv 100 3600)) ''/dev/sda''
     [(''Command_Timeout_Counter'', 0)]
     [(''/dev/sda'', [(''Command_Timeout_Counter'', 100)])] =
   Inr [Result CRIT
          ''Command timeout counter: 100 (counter increased more than 100 counts / h (!!). Value during discovery was: 0)'',
        Metric ''Command_Timeout_Counter'' 100]"
    using zero
    by (simp add: check_smart_stats_def all_attributes_def check_attribute_def reference_value_def
          cross_check_def rate_check_def final_result_def host_with_rate_def
          MAX_COMMAND_TIMEOUTS_PER_HOUR_def truediv_100_3600 display_command_timeout py_str_100)
  have rate: "get_rate (host_with_rate (py_truediv 100 3600)) ''cmd_timeout'' 100 = Inr (py_truediv 100 3600)"
    by (simp add: host_with_rate_def)
  have cmp: "\<not> (py_truediv 100 3600 > py_truediv MAX_COMMAND_TIMEOUTS_PER_HOUR (60 * 60))"
    "\<not> (py_truediv 100 3600 > 100 / 3600)"
    by (simp_all add: MAX_COMMAND_TIMEOUTS_PER_HOUR_def truediv_100_3600)
  from rate truediv_100_3600 cmp run show ?thesis by (intro conjI)
qed

text \<open>
  Claim C2, amended. Let the reading have the value \<open>v\<close> for the command timeout counter.
  When \<open>params\<close> has no baseline for it, the state is \<open>OK\<close> whatever the collaborator
  would return or raise: it is not asked. When \<open>params\<close> has a baseline \<open>b\<close> and the
  collaborator returns \<open>rate\<close>, the state is \<open>OK\<close> if \<open>rate\<close> is below the double
  \<^verbatim>\<open>100 / 3600\<close>, which is \<open>2001599834386887 / 2 ^ 56\<close>, and \<open>CRIT\<close> otherwise, whatever
  \<open>v\<close> and \<open>b\<close> are; the hint of the critical case shows \<open>b\<close> and not the rate. In both
  cases the check returns and reports this state and the metric \<open>v\<close> for the counter,
  unless the reading has an available spare without its threshold, and then the check
  raises the \<^verbatim>\<open>KeyError\<close>. When the collaborator raises, the body raises the same.
\<close>

theorem command_timeout_rate:
  assumes "map_of section item = Some disk"
    and "map_of disk ''Command_Timeout_Counter'' = Some v"
  shows "(map_of params ''Command_Timeout_Counter'' = None \<longrightarrow>
            check_attribute (h\<lparr>get_rate := g\<rparr>) params disk COMMAND_TIMEOUT_COUNTER =
              Inr [Result OK (''Command timeout counter: '' @ py_str v),
                   Metric ''Command_Timeout_Counter'' v]
          \<and> ((\<exists>outs. check_smart_stats (h\<lparr>get_rate := g\<rparr>) item params section = Inr outs
                  \<and> result_for ''Command_Timeout_Counter'' outs =
                      Some (OK, ''Command timeout counter: '' @ py_str v)
                  \<and> metric_for ''Command_Timeout_Counter'' outs = Some v)
             \<or> (check_smart_stats (h\<lparr>get_rate := g\<rparr>) item params section =
                   Inl (KeyError ''Available_Spare_Threshold'')
                 \<and> map_of disk ''Available_Spare'' \<noteq> None
                 \<and> map_of disk ''Available_Spare_Threshold'' = None)))
       \<and> (\<forall>b rate. map_of params ''Command_Timeout_Counter'' = Some b \<longrightarrow>
                   get_rate h ''cmd_timeout'' v = Inr rate \<longrightarrow>
            check_attribute h params disk COMMAND_TIMEOUT_COUNTER =
              Inr [Result (if rate < 2001599834386887 / 2 ^ 56 then OK else CRIT)
                     (''Command timeout counter: '' @ py_str v @
                        (if rate < 2001599834386887 / 2 ^ 56 then []
                         else '' (counter increased more than 100 counts / h (!!). Value during discovery was: ''
                              @ py_str b @ '')'')),
                   Metric ''Command_Timeout_Counter'' v]
          \<and> ((\<exists>outs. check_smart_stats h item params section = Inr outs
                  \<and> result_for ''Command_Timeout_Counter'' outs =
                      Some (if rate < 2001599834386887 / 2 ^ 56 then OK else CRIT,
                            ''Command timeout counter: '' @ py_str v @
                              (if rate < 2001599834386887 / 2 ^ 56 then []
                               else '' (counter increased more than 100 counts / h (!!). Value during discovery was: ''
                                    @ py_str b @ '')''))
                  \<and> metric_for ''Command_Timeout_Counter'' outs = Some v)
             \<or> (check_smart_stats h item params section =
                   Inl (KeyError ''Available_Spare_Threshold'')
                 \<and> map_of disk ''Available_Spare'' \<noteq> None
                 \<and> map_of disk ''Available_Spare_Threshold'' = None)))
       \<and> (\<forall>b e. map_of params ''Command_Timeout_Counter'' = Some b \<longrightarrow>
                get_rate h ''cmd_timeout'' v = Inl e \<longrightarrow>
            check_attribute h params disk COMMAND_TIMEOUT_COUNTER = Inl e)"
proof (intro conjI allI impI)
  assume none: "map_of params ''Command_Timeout_Counter'' = None"
  show body: "check_attribute (h\<lparr>get_rate := g\<rparr>) params disk COMMAND_TIMEOUT_COUNTER =
              Inr [Result OK (''Command timeout counter: '' @ py_str v),
                   Metric ''Command_Timeout_Counter'' v]"
    using assms(2) none
    by (simp add: check_attribute_def reference_value_def display_command_timeout)
  show "(\<exists>outs. check_smart_stats (h\<lparr>get_rate := g\<rparr>) item params section = Inr outs
                  \<and> result_for ''Command_Timeout_Counter'' outs =
                      Some (OK, ''Command timeout counter: '' @ py_str v)
                  \<and> metric_for ''Command_Timeout_Counter'' outs = Some v)
             \<or> (check_smart_stats (h\<lparr>get_rate := g\<rparr>) item params section =
                   Inl (KeyError ''Available_Spare_Threshold'')
                 \<and> map_of disk ''Available_Spare'' \<noteq> None
                 \<and> map_of disk ''Available_Spare_Threshold'' = None)"
  proof (cases "check_smart_stats (h\<lparr>get_rate := g\<rparr>) item params section")
    case (Inl e)
    from check_smart_stats_error_cause [OF assms(1) Inl] none Inl
    show ?thesis by auto
  next
    case (Inr outs)
    from check_smart_stats_result [OF assms(1), of "h\<lparr>get_rate := g\<rparr>" params
        COMMAND_TIMEOUT_COUNTER OK _ v outs] body Inr
    show ?thesis by simp
  qed
next
  fix b rate
  assume b: "map_of params ''Command_Timeout_Counter'' = Some b"
    and rate: "get_rate h ''cmd_timeout'' v = Inr rate"
  show body: "check_attribute h params disk COMMAND_TIMEOUT_COUNTER =
              Inr [Result (if rate < 2001599834386887 / 2 ^ 56 then OK else CRIT)
                     (''Command timeout counter: '' @ py_str v @
                        (if rate < 2001599834386887 / 2 ^ 56 then []
                         else '' (counter increased more than 100 counts / h (!!). Value during discovery was: ''
                              @ py_str b @ '')'')),
                   Metric ''Command_Timeout_Counter'' v]"
    using assms(2) b rate
    by (simp add: check_attribute_def reference_value_def cross_check_def rate_check_def
          final_result_def MAX_COMMAND_TIMEOUTS_PER_HOUR_def truediv_100_3600
          display_command_timeout py_str_100)
  show "(\<exists>outs. check_smart_stats h item params section = Inr outs
                  \<and> result_for ''Command_Timeout_Counter'' outs =
                      Some (if rate < 2001599834386887 / 2 ^ 56 then OK else CRIT,
                            ''Command timeout counter: '' @ py_str v @
                              (if rate < 2001599834386887 / 2 ^ 56 then []
                               else '' (counter increased more than 100 counts / h (!!). Value during discovery was: ''
                                    @ py_str b @ '')''))
                  \<and> metric_for ''Command_Timeout_Counter'' outs = Some v)
             \<or> (check_smart_stats h item params section =
                   Inl (KeyError ''Available_Spare_Threshold'')
                 \<and> map_of disk ''Available_Spare'' \<noteq> None
                 \<and> map_of disk ''Available_Spare_Threshold'' = None)"
  proof (cases "check_smart_stats h item params section")
    case (Inl e)
    from check_smart_stats_error_cause [OF assms(1) Inl] assms(2) rate Inl
    show ?thesis by auto
  next
    case (Inr outs)
    from check_smart_stats_result [OF assms(1), of h params COMMAND_TIMEOUT_COUNTER _ _ v outs]
      body Inr
    show ?thesis by simp
  qed
next
  fix b e
  assume "map_of params ''Command_Timeout_Counter'' = Some b"
    and "get_rate h ''cmd_timeout'' v = Inl e"
  with assms(2) show "check_attribute h params disk COMMAND_TIMEOUT_COUNTER = Inl e"
    by (simp add: check_attribute_def reference_value_def cross_check_def rate_check_def)
qed

theorem command_timeout_rate_witness:
  "(\<exists>outs. check_smart_stats (host_with_rate (py_truediv 50 3600)) ''/dev/sda''
              [(''Command_Timeout_Counter'', 0)]
              [(''/dev/sda'', [(''Command_Timeout_Counter'', 50)])] = Inr outs
          \<and> result_for ''Command_Timeout_Counter'' outs = Some (OK, ''Command timeout counter: 50'')
          \<and> metric_for ''Command_Timeout_Counter'' outs = Some 50)
   \<and> (\<exists>outs. check_smart_stats (host_with_rate (py_truediv 100000 3600)) ''/dev/sda''
              [(''Command_Timeout_Counter'', 0)]
              [(''/dev/sda'', [(''Command_Timeout_Counter'', 100000)])] = Inr outs
          \<and> result_for ''Command_Timeout_Counter'' outs =
              Some (CRIT, ''Command timeout counter: 100000 (counter increased more than 100 counts / h (!!). Value during discovery was: 0)'')
          \<and> metric_for ''Command_Timeout_Counter'' outs = Some 100000)
   \<and> check_attribute ((host_with_rate 0)\<lparr>get_rate := \<lambda>key c. Inl RateError\<rparr>) []
        [(''Command_Timeout_Counter'', 50)] COMMAND_TIMEOUT_COUNTER =
      Inr [Result OK ''Command timeout counter: 50'', Metric ''Command_Timeout_Counter'' 50]"
proof -
  have s1: "map_of [(''/dev/sda'', [(''Command_Timeout_Counter'', 50::int)])] ''/dev/sda'' =
      Some [(''Command_Timeout_Counter'', 50)]"
    by simp
  have s2: "map_of [(''/dev/sda'', [(''Command_Timeout_Counter'', 100000::int)])] ''/dev/sda'' =
      Some [(''Command_Timeout_Counter'', 100000)]"
    by simp
  have v1: "map_of [(''Command_Timeout_Counter'', 50::int)] ''Command_Timeout_Counter'' = Some 50"
    by simp
  have v2: "map_of [(''Command_Timeout_Counter'', 100000::int)] ''Command_Timeout_Counter'' = Some 100000"
    by simp
  have b0: "map_of [(''Command_Timeout_Counter'', 0::int)] ''Command_Timeout_Counter'' = Some 0"
    by simp
  have n0: "map_of ([] :: (string \<times> int) list) ''Command_Timeout_Counter'' = None"
    by simp
  have g1: "get_rate (host_with_rate (py_truediv 50 3600)) ''cmd_timeout'' 50 = Inr (py_truediv 50 3600)"
    by (simp add: host_with_rate_def)
  have g2: "get_rate (host_with_rate (py_truediv 100000 3600)) ''cmd_timeout'' 100000 =
      Inr (py_truediv 100000 3600)"
    by (simp add: host_with_rate_def)
  have r: "py_str 0 = ''0''" "py_str 50 = ''50''" "py_str 100000 = ''100000''"
    by code_simp+
  have spare: "map_of [(''Command_Timeout_Counter'', 50::int)] ''Available_Spare'' = None"
    "map_of [(''Command_Timeout_Counter'', 100000::int)] ''Available_Spare'' = None"
    by simp_all
  from command_timeout_rate [OF s1 v1, where params = "[(''Command_Timeout_Counter'', 0)]"
      and h = "host_with_rate (py_truediv 50 3600)", THEN conjunct2, THEN conjunct1, rule_format, OF b0 g1]
    r spare
  have w1: "\<exists>outs. check_smart_stats (host_with_rate (py_truediv 50 3600)) ''/dev/sda''
              [(''Command_Timeout_Counter'', 0)]
              [(''/dev/sda'', [(''Command_Timeout_Counter'', 50)])] = Inr outs
          \<and> result_for ''Command_Timeout_Counter'' outs = Some (OK, ''Command timeout counter: 50'')
          \<and> metric_for ''Command_Timeout_Counter'' outs = Some 50"
    by (simp add: truediv_50_3600)
  from command_timeout_rate [OF s2 v2, where params = "[(''Command_Timeout_Counter'', 0)]"
      and h = "host_with_rate (py_truediv 100000 3600)", THEN conjunct2, THEN conjunct1, rule_format, OF b0 g2]
    r spare
  have w2: "\<exists>outs. check_smart_stats (host_with_rate (py_truediv 100000 3600)) ''/dev/sda''
              [(''Command_Timeout_Counter'', 0)]
              [(''/dev/sda'', [(''Command_Timeout_Counter'', 100000)])] = Inr outs
          \<and> result_for ''Command_Timeout_Counter'' outs =
              Some (CRIT, ''Command timeout counter: 100000 (counter increased more than 100 counts / h (!!). Value during discovery was: 0)'')
          \<and> metric_for ''Command_Timeout_Counter'' outs = Some 100000"
    by (simp add: truediv_100000_3600)
  from command_timeout_rate [OF s1 v1, where params = "[]" and h = "host_with_rate 0"
      and g = "\<lambda>key c. Inl RateError", THEN conjunct1, rule_format, OF n0, THEN conjunct1] r
  have w3: "check_attribute ((host_with_rate 0)\<lparr>get_rate := \<lambda>key c. Inl RateError\<rparr>) []
        [(''Command_Timeout_Counter'', 50)] COMMAND_TIMEOUT_COUNTER =
      Inr [Result OK ''Command timeout counter: 50'', Metric ''Command_Timeout_Counter'' 50]"
    by simp
  from w1 w2 w3 show ?thesis by (intro conjI)
qed

subsection \<open>The check: the reallocated events\<close>

text \<open>
  Claim C1, as stated, fails in two ways. First, without a baseline in \<open>params\<close> the
  check yields \<open>OK\<close> before it looks at the normalized pair: the line of the agent below
  has the normalized value 1 at the threshold 10, and the state is \<open>OK\<close>. Second, with
  a baseline the state of the comparison of the raw value stays when the normalized
  value is above its threshold: the raw value 5 over the baseline 0 gives \<open>CRIT\<close>
  although the normalized value 100 is above the threshold 10.
\<close>

theorem reallocated_events_counterexample:
  "parse_raw_values [sda_line ''196'' ''Reallocated_Event_Count'' ''0x0032'' ''001'' ''010'' ''5''] =
     Inr [(''/dev/sda'', [(''Reallocated_Events'', 5), (''_normalized_value_Reallocated_Events'', 1),
                          (''_normalized_threshold_Reallocated_Events'', 10)])] \<and>
   check_smart_stats (host_with_rate 0) ''/dev/sda'' []
     [(''/dev/sda'', [(''Reallocated_Events'', 5), (''_normalized_value_Reallocated_Events'', 1),
                      (''_normalized_threshold_Reallocated_Events'', 10)])] =
     Inr [Result OK ''Reallocated events: 5'', Metric ''Reallocated_Events'' 5] \<and>
   parse_raw_values [sda_line ''196'' ''Reallocated_Event_Count'' ''0x0032'' ''100'' ''010'' ''5''] =
     Inr [(''/dev/sda'', [(''Reallocated_Events'', 5), (''_normalized_value_Reallocated_Events'', 100),
                          (''_normalized_threshold_Reallocated_Events'', 10)])] \<and>
   check_smart_stats (host_with_rate 0) ''/dev/sda'' [(''Reallocated_Events'', 0)]
     [(''/dev/sda'', [(''Reallocated_Events'', 5), (''_normalized_value_Reallocated_Events'', 100),
                      (''_normalized_threshold_Reallocated_Events'', 10)])] =
     Inr [Result CRIT ''Reallocated events: 5 (during discovery: 0 (!!), normalized value: 100)'',
          Metric ''Reallocated_Events'' 5]"
proof -
  have p1: "parse_raw_values [sda_line ''196'' ''Reallocated_Event_Count'' ''0x0032'' ''001'' ''010'' ''5''] =
     Inr [(''/dev/sda'', [(''Reallocated_Events'', 5), (''_normalized_value_Reallocated_Events'', 1),
                          (''_normalized_threshold_Reallocated_Events'', 10)])]"
    by code_simp
  have c1: "check_smart_stats (host_with_rate 0) ''/dev/sda'' []
     [(''/dev/sda'', [(''Reallocated_Events'', 5), (''_normalized_value_Reallocated_Events'', 1),
                      (''_normalized_threshold_Reallocated_Events'', 10)])] =
     Inr [Result OK ''Reallocated events: 5'', Metric ''Reallocated_Events'' 5]"
    by code_simp
  have p2: "parse_raw_values [sda_line ''196'' ''Reallocated_Event_Count'' ''0x0032'' ''100'' ''010'' ''5''] =
     Inr [(''/dev/sda'', [(''Reallocated_Events'', 5), (''_normalized_value_Reallocated_Events'', 100),
                          (''_normalized_threshold_Reallocated_Events'', 10)])]"
    by code_simp
  have c2: "check_smart_stats (host_with_rate 0) ''/dev/sda'' [(''Reallocated_Events'', 0)]
     [(''/dev/sda'', [(''Reallocated_Events'', 5), (''_normalized_value_Reallocated_Events'', 100),
                      (''_normalized_threshold_Reallocated_Events'', 10)])] =
     Inr [Result CRIT ''Reallocated events: 5 (during discovery: 0 (!!), normalized value: 100)'',
          Metric ''Reallocated_Events'' 5]"
    by code_simp
  from p1 c1 p2 c2 show ?thesis by blast
qed

text \<open>
  Claim C1, amended. Let the reading have the raw value \<open>v\<close> of the reallocated events
  and the normalized pair \<open>nv\<close>, \<open>nt\<close>. Without a baseline in \<open>params\<close> the state is
  \<open>OK\<close>. With a baseline \<open>b\<close>: the state is \<open>CRIT\<close> whenever \<open>nv \<le> nt\<close>; as long as
  the raw value is not above the baseline, the state is \<open>CRIT\<close> exactly when \<open>nv \<le> nt\<close>;
  the summary shows the normalized value, marked when it is at or below the threshold,
  after the hint of the baseline comparison when the raw value is above the baseline;
  and a check that returns reports this state and summary.
\<close>

theorem reallocated_events_cross_check:
  assumes "map_of section item = Some disk"
    and "map_of disk ''Reallocated_Events'' = Some v"
    and "map_of disk ''_normalized_value_Reallocated_Events'' = Some nv"
    and "map_of disk ''_normalized_threshold_Reallocated_Events'' = Some nt"
  shows "(map_of params ''Reallocated_Events'' = None \<longrightarrow>
            check_attribute h params disk REALLOCATED_EVENTS =
              Inr [Result OK (''Reallocated events: '' @ py_str v), Metric ''Reallocated_Events'' v])
       \<and> (\<forall>b. map_of params ''Reallocated_Events'' = Some b \<longrightarrow>
            (\<exists>s t. check_attribute h params disk REALLOCATED_EVENTS =
                      Inr [Result s t, Metric ''Reallocated_Events'' v]
                \<and> (nv \<le> nt \<longrightarrow> s = CRIT)
                \<and> (v \<le> b \<longrightarrow> (s = CRIT \<longleftrightarrow> nv \<le> nt))
                \<and> t = ''Reallocated events: '' @ py_str v @ '' ('' @
                        (if v > b then ''during discovery: '' @ py_str b @ '' (!!), '' else []) @
                        ''normalized value: '' @ py_str nv @
                        (if nv \<le> nt then '' (!!)'' else []) @ '')''
                \<and> (\<forall>outs. check_smart_stats h item params section = Inr outs \<longrightarrow>
                      result_for ''Reallocated_Events'' outs = Some (s, t)
                    \<and> metric_for ''Reallocated_Events'' outs = Some v)))"
proof (intro conjI allI impI)
  assume "map_of params ''Reallocated_Events'' = None"
  with assms(2) show "check_attribute h params disk REALLOCATED_EVENTS =
      Inr [Result OK (''Reallocated events: '' @ py_str v), Metric ''Reallocated_Events'' v]"
    by (simp add: check_attribute_def reference_value_def display_reallocated_events)
next
  fix b
  assume b: "map_of params ''Reallocated_Events'' = Some b"
  define s where "s = (if nv \<le> nt \<or> v > b then CRIT else OK)"
  define t where "t = ''Reallocated events: '' @ py_str v @ '' ('' @
                        (if v > b then ''during discovery: '' @ py_str b @ '' (!!), '' else []) @
                        ''normalized value: '' @ py_str nv @
                        (if nv \<le> nt then '' (!!)'' else []) @ '')''"
  have body: "check_attribute h params disk REALLOCATED_EVENTS =
      Inr [Result s t, Metric (name REALLOCATED_EVENTS) v]"
    using assms(2-4) b
    by (simp add: check_attribute_def reference_value_def cross_check_def rate_check_def
          final_result_def normalized_value_key_def normalized_threshold_key_def
          display_reallocated_events s_def t_def)
  have whole: "\<forall>outs. check_smart_stats h item params section = Inr outs \<longrightarrow>
                      result_for ''Reallocated_Events'' outs = Some (s, t)
                    \<and> metric_for ''Reallocated_Events'' outs = Some v"
    using check_smart_stats_result [OF assms(1) body] by simp
  have "nv \<le> nt \<longrightarrow> s = CRIT" and "v \<le> b \<longrightarrow> (s = CRIT \<longleftrightarrow> nv \<le> nt)"
    by (auto simp: s_def)
  with body whole t_def
  show "\<exists>s t. check_attribute h params disk REALLOCATED_EVENTS =
                      Inr [Result s t, Metric ''Reallocated_Events'' v]
                \<and> (nv \<le> nt \<longrightarrow> s = CRIT)
                \<and> (v \<le> b \<longrightarrow> (s = CRIT \<longleftrightarrow> nv \<le> nt))
                \<and> t = ''Reallocated events: '' @ py_str v @ '' ('' @
                        (if v > b then ''during discovery: '' @ py_str b @ '' (!!), '' else []) @
                        ''normalized value: '' @ py_str nv @
                        (if nv \<le> nt then '' (!!)'' else []) @ '')''
                \<and> (\<forall>outs. check_smart_stats h item params section = Inr outs \<longrightarrow>
                      result_for ''Reallocated_Events'' outs = Some (s, t)
                    \<and> metric_for ''Reallocated_Events'' outs = Some v)"
    by (intro exI [of _ s] exI [of _ t]) simp
qed

theorem reallocated_events_cross_check_witness:
  "check_attribute (host_with_rate 0) [(''Reallocated_Events'', 5)]
      [(''Reallocated_Events'', 5), (''_normalized_value_Reallocated_Events'', 1),
       (''_normalized_threshold_Reallocated_Events'', 10)] REALLOCATED_EVENTS =
     Inr [Result CRIT ''Reallocated events: 5 (normalized value: 1 (!!))'', Metric ''Reallocated_Events'' 5]"
proof -
  have s1: "map_of [(''/dev/sda'', [(''Reallocated_Events'', 5::int), (''_normalized_value_Reallocated_Events'', 1),
       (''_normalized_threshold_Reallocated_Events'', 10)])] ''/dev/sda'' =
      Some [(''Reallocated_Events'', 5), (''_normalized_value_Reallocated_Events'', 1),
       (''_normalized_threshold_Reallocated_Events'', 10)]"
    by simp
  have v1: "map_of [(''Reallocated_Events'', 5::int), (''_normalized_value_Reallocated_Events'', 1),
       (''_normalized_threshold_Reallocated_Events'', 10)] ''Reallocated_Events'' = Some 5"
    by simp
  have n1: "map_of [(''Reallocated_Events'', 5::int), (''_normalized_value_Reallocated_Events'', 1),
       (''_normalized_threshold_Reallocated_Events'', 10)] ''_normalized_value_Reallocated_Events'' = Some 1"
    by simp
  have t1: "map_of [(''Reallocated_Events'', 5::int), (''_normalized_value_Reallocated_Events'', 1),
       (''_normalized_threshold_Reallocated_Events'', 10)] ''_normalized_threshold_Reallocated_Events'' = Some 10"
    by simp
  have r: "py_str 5 = ''5''" "py_str 1 = ''1''"
    by code_simp+
  from reallocated_events_cross_check [OF s1 v1 n1 t1, of "[(''Reallocated_Events'', 5)]" "host_with_rate 0"] r
  show ?thesis by auto
qed

subsection \<open>The tabular sub-parser, line by line\<close>

lemma parse_ata_from_append:
  "parse_ata_from disks (ls @ [l]) =
     (case parse_ata_from disks ls of Inl e \<Rightarrow> Inl e | Inr disks' \<Rightarrow> ata_line disks' l)"
  by (induction ls arbitrary: disks) (auto split: sum.splits)

lemma parse_ata_lines_last:
  "parse_ata_lines ls = Inr disks \<Longrightarrow> parse_ata_lines (ls @ [l]) = ata_line disks l"
  by (simp add: parse_ata_lines_def parse_ata_from_append)

text \<open>
  A string table of tabular lines only is parsed by the tabular sub-parser alone: the
  key/value sub-parser gets no line and contributes no device.
\<close>

lemma parse_raw_values_tabular:
  assumes "\<forall>l \<in> set string_table. 13 \<le> length l"
  shows "parse_raw_values string_table = parse_ata_lines string_table"
proof -
  from assms have "filter (\<lambda>line. 13 \<le> length line) string_table = string_table"
    by (simp add: filter_id_conv)
  moreover from assms
  have "filter (\<lambda>line. 3 \<le> length line \<and> length line \<le> 6) string_table = []"
    by (auto simp: filter_empty_conv)
  ultimately show ?thesis
    by (simp add: parse_raw_values_def parse_nvme_lines_def dict_merge_def split: sum.splits)
qed

lemma map_of_set_int_or_zero:
  "map_of (set_int_or_zero disk key v) = (map_of disk)(key \<mapsto> int_or_zero v)"
  by (simp add: set_int_or_zero_def int_or_zero_def update_conv' split: option.splits)

lemma reading_update:
  "reading (AList.update p d disks) q k = (if q = p then map_of d k else reading disks q k)"
  by (simp add: reading_def update_conv')

text \<open>
  \<^verbatim>\<open>ata_disks.setdefault(disk_path, {})\<close> changes no reading, and the dictionary that it
  returns is the one stored under the path.
\<close>

lemma setdefault_empty:
  assumes "setdefault p [] disks = (disk, disks1)"
  shows "map_of disks1 p = Some disk"
    and "reading disks1 q k = reading disks q k"
    and "map_of disk k = reading disks p k"
  using assms
  by (auto simp: setdefault_def reading_def map_add_def split: option.splits if_splits)

lemma key_present: "k \<in> fst ` set disk \<longleftrightarrow> map_of disk k \<noteq> None"
  by (simp add: map_of_eq_None_iff)

text \<open>
  Claim C9. Let the tabular lines \<open>ls\<close> have been parsed into \<open>disks\<close>, and let the next
  line have a code without entry in the registry and a name other than
  \<^verbatim>\<open>Unknown_Attribute\<close>. Then the line is parsed without exception; the device has the
  raw value of the line (or 0 when it is not a number) under the literal name if the name
  was not a key of the device before, and it keeps the value that it had under the name
  otherwise; nothing else changes.
\<close>

theorem unmapped_code_first_wins:
  assumes "parse_ata_lines ls = Inr disks"
    and "line = disk_path # c2 # c3 # ID # attribute_name # c6 # c7 # c8 # c9 # c10 # c11 # c12 #
                raw_value # raw_value_info"
    and "py_int ID = Some code"
    and "ATA_ID_TO_DISK_ATTRIBUTE code = None"
    and "attribute_name \<noteq> ''Unknown_Attribute''"
  shows "\<exists>disks'. parse_ata_lines (ls @ [line]) = Inr disks'
       \<and> reading disks' disk_path attribute_name =
           (case reading disks disk_path attribute_name of
              Some old \<Rightarrow> Some old
            | None \<Rightarrow> Some (int_or_zero raw_value))
       \<and> (\<forall>p k. (p, k) \<noteq> (disk_path, attribute_name) \<longrightarrow> reading disks' p k = reading disks p k)"
proof -
  obtain disk disks1 where sd: "setdefault disk_path [] disks = (disk, disks1)"
    by (cases "setdefault disk_path [] disks")
  note sds = setdefault_empty [OF sd]
  have "code \<noteq> CRC_ERRORS_ID"
    using assms(4) by (auto simp: ATA_ID_TO_DISK_ATTRIBUTE_def CRC_ERRORS_ID_def)
  with assms(2-5) sd have step: "ata_line disks line =
      (if attribute_name \<in> fst ` set disk then Inr disks1
       else Inr (AList.update disk_path (set_int_or_zero disk attribute_name raw_value) disks1))"
    by simp
  show ?thesis
  proof (cases "attribute_name \<in> fst ` set disk")
    case True
    then obtain old where "map_of disk attribute_name = Some old"
      by (auto simp: key_present)
    with sds(3) have "reading disks disk_path attribute_name = Some old" by simp
    with True step sds(2) parse_ata_lines_last [OF assms(1), of line]
    show ?thesis by simp
  next
    case False
    then have "map_of disk attribute_name = None"
      by (simp add: key_present)
    with sds(3) have none: "reading disks disk_path attribute_name = None" by simp
    have "\<forall>p k. (p, k) \<noteq> (disk_path, attribute_name) \<longrightarrow>
        reading (AList.update disk_path (set_int_or_zero disk attribute_name raw_value) disks1) p k
          = reading disks p k"
      using sds(2,3) by (auto simp: reading_update map_of_set_int_or_zero)
    with False step none parse_ata_lines_last [OF assms(1), of line]
    show ?thesis by (simp add: reading_update map_of_set_int_or_zero)
  qed
qed

theorem unmapped_code_first_wins_witness:
  "parse_ata_lines [sda_line ''240'' ''Head_Flying_Hours'' ''0x0013'' ''100'' ''050'' ''7''] =
     Inr [(''/dev/sda'', [(''Head_Flying_Hours'', 7)])]
   \<and> (\<exists>disks'. parse_ata_lines [sda_line ''240'' ''Head_Flying_Hours'' ''0x0013'' ''100'' ''050'' ''7'',
                                  sda_line ''241'' ''Head_Flying_Hours'' ''0x0013'' ''100'' ''050'' ''9''] = Inr disks'
         \<and> reading disks' ''/dev/sda'' ''Head_Flying_Hours'' = Some 7)"
proof -
  have first: "parse_ata_lines [sda_line ''240'' ''Head_Flying_Hours'' ''0x0013'' ''100'' ''050'' ''7''] =
     Inr [(''/dev/sda'', [(''Head_Flying_Hours'', 7)])]"
    by code_simp
  have line: "sda_line ''241'' ''Head_Flying_Hours'' ''0x0013'' ''100'' ''050'' ''9'' =
      ''/dev/sda'' # ''ATA'' # ''WDC_SSC-D0128SC-'' # ''241'' # ''Head_Flying_Hours'' # ''0x0013'' #
      ''100'' # ''100'' # ''050'' # ''Pre-fail'' # ''Always'' # ''-'' # ''9'' # []"
    by (simp add: sda_line_def)
  have code: "py_int ''241'' = Some 241"
    by code_simp
  have unmapped: "ATA_ID_TO_DISK_ATTRIBUTE 241 = None"
    by (simp add: ATA_ID_TO_DISK_ATTRIBUTE_def CRC_ERRORS_ID_def)
  have other: "''Head_Flying_Hours'' \<noteq> ''Unknown_Attribute''"
    by simp
  have old: "reading [(''/dev/sda'', [(''Head_Flying_Hours'', 7)])] ''/dev/sda'' ''Head_Flying_Hours'' = Some 7"
    by (simp add: reading_def)
  from unmapped_code_first_wins [OF first line code unmapped other] old first
  show ?thesis by auto
qed

subsection \<open>The code 199\<close>

text \<open>
  Claim C8, as stated, fails for one name: a line of code 199 whose name is
  \<^verbatim>\<open>Unknown_Attribute\<close> is skipped before the code is looked at, so its raw value is
  recorded under no name at all.
\<close>

theorem crc_unknown_attribute_counterexample:
  "py_int ''199'' = Some 199 \<and>
   parse_raw_values [sda_line ''199'' ''Unknown_Attribute'' ''0x003e'' ''200'' ''000'' ''7''] =
     Inr [(''/dev/sda'', [])] \<and>
   reading [(''/dev/sda'', [])] ''/dev/sda'' ''CRC_Errors'' = None"
proof -
  have a: "py_int ''199'' = Some 199"
    by code_simp
  have b: "parse_raw_values [sda_line ''199'' ''Unknown_Attribute'' ''0x003e'' ''200'' ''000'' ''7''] =
     Inr [(''/dev/sda'', [])]"
    by code_simp
  from a b show ?thesis by (simp add: reading_def)
qed

text \<open>
  Claim C8, amended. Let the tabular lines \<open>ls\<close> have been parsed into \<open>disks\<close>, and let
  the next line have the code 199. If its name is \<^verbatim>\<open>UDMA_CRC_Error_Count\<close>, the device
  has the raw value (or 0 when it is not a number) under \<^verbatim>\<open>UDMA_CRC_Errors\<close> afterwards;
  if its name is any other than that and \<^verbatim>\<open>Unknown_Attribute\<close>, the device has it under
  \<^verbatim>\<open>CRC_Errors\<close>; in both cases the stored value is the same function of the raw value
  and nothing else changes. If the name is \<^verbatim>\<open>Unknown_Attribute\<close>, no reading changes.
\<close>

theorem crc_code_routing:
  assumes "parse_ata_lines ls = Inr disks"
    and "line = disk_path # c2 # c3 # ID # attribute_name # c6 # c7 # c8 # c9 # c10 # c11 # c12 #
                raw_value # raw_value_info"
    and "py_int ID = Some 199"
  shows "\<exists>disks'. parse_ata_lines (ls @ [line]) = Inr disks'
       \<and> (attribute_name = ''UDMA_CRC_Error_Count'' \<longrightarrow>
            reading disks' disk_path ''UDMA_CRC_Errors'' = Some (int_or_zero raw_value)
          \<and> (\<forall>p k. (p, k) \<noteq> (disk_path, ''UDMA_CRC_Errors'') \<longrightarrow>
                reading disks' p k = reading disks p k))
       \<and> (attribute_name \<noteq> ''UDMA_CRC_Error_Count'' \<and> attribute_name \<noteq> ''Unknown_Attribute'' \<longrightarrow>
            reading disks' disk_path ''CRC_Errors'' = Some (int_or_zero raw_value)
          \<and> (\<forall>p k. (p, k) \<noteq> (disk_path, ''CRC_Errors'') \<longrightarrow>
                reading disks' p k = reading disks p k))
       \<and> (attribute_name = ''Unknown_Attribute'' \<longrightarrow>
            (\<forall>p k. reading disks' p k = reading disks p k))"
proof -
  obtain disk disks1 where sd: "setdefault disk_path [] disks = (disk, disks1)"
    by (cases "setdefault disk_path [] disks")
  note sds = setdefault_empty [OF sd]
  have table: "ATA_ID_TO_DISK_ATTRIBUTE 199 = Some CRC_ERRORS"
    by (simp add: ATA_ID_TO_DISK_ATTRIBUTE_def CRC_ERRORS_ID_def)
  have step: "ata_line disks line =
      (if attribute_name = ''Unknown_Attribute'' then Inr disks1
       else if attribute_name = ''UDMA_CRC_Error_Count''
       then Inr (AList.update disk_path (set_int_or_zero disk ''UDMA_CRC_Errors'' raw_value) disks1)
       else Inr (AList.update disk_path (set_int_or_zero disk ''CRC_Errors'' raw_value) disks1))"
    using assms(2,3) sd table by (simp add: CRC_ERRORS_ID_def)
  have last: "parse_ata_lines (ls @ [line]) = ata_line disks line"
    by (rule parse_ata_lines_last [OF assms(1)])
  consider (marker) "attribute_name = ''Unknown_Attribute''"
    | (udma) "attribute_name = ''UDMA_CRC_Error_Count''"
    | (other) "attribute_name \<noteq> ''UDMA_CRC_Error_Count''" "attribute_name \<noteq> ''Unknown_Attribute''"
    by blast
  then show ?thesis
  proof cases
    case marker
    with step last sds(2) show ?thesis by simp
  next
    case udma
    with step last sds(2,3) show ?thesis
      by (auto simp: reading_update map_of_set_int_or_zero)
  next
    case other
    with step last sds(2,3) show ?thesis
      by (auto simp: reading_update map_of_set_int_or_zero)
  qed
qed

theorem crc_code_routing_witness:
  "(\<exists>disks'. parse_ata_lines ([] @ [sda_line ''199'' ''UDMA_CRC_Error_Count'' ''0x003e'' ''200'' ''000'' ''7'']) = Inr disks'
      \<and> reading disks' ''/dev/sda'' ''UDMA_CRC_Errors'' = Some 7
      \<and> reading disks' ''/dev/sda'' ''CRC_Errors'' = None)
   \<and> (\<exists>disks'. parse_ata_lines ([] @ [sda_line ''199'' ''CRC_Error_Count'' ''0x003e'' ''200'' ''000'' ''7'']) = Inr disks'
      \<and> reading disks' ''/dev/sda'' ''CRC_Errors'' = Some 7
      \<and> reading disks' ''/dev/sda'' ''UDMA_CRC_Errors'' = None)"
proof -
  have start: "parse_ata_lines [] = Inr []"
    by (simp add: parse_ata_lines_def)
  have l1: "sda_line ''199'' ''UDMA_CRC_Error_Count'' ''0x003e'' ''200'' ''000'' ''7'' =
      ''/dev/sda'' # ''ATA'' # ''WDC_SSC-D0128SC-'' # ''199'' # ''UDMA_CRC_Error_Count'' # ''0x003e'' #
      ''200'' # ''100'' # ''000'' # ''Pre-fail'' # ''Always'' # ''-'' # ''7'' # []"
    by (simp add: sda_line_def)
  have l2: "sda_line ''199'' ''CRC_Error_Count'' ''0x003e'' ''200'' ''000'' ''7'' =
      ''/dev/sda'' # ''ATA'' # ''WDC_SSC-D0128SC-'' # ''199'' # ''CRC_Error_Count'' # ''0x003e'' #
      ''200'' # ''100'' # ''000'' # ''Pre-fail'' # ''Always'' # ''-'' # ''7'' # []"
    by (simp add: sda_line_def)
  have code: "py_int ''199'' = Some 199"
    by code_simp
  have raw: "int_or_zero ''7'' = 7"
    by code_simp
  have empty: "\<And>k. reading [] ''/dev/sda'' k = None"
    by (simp add: reading_def)
  from crc_code_routing [OF start l1 code] crc_code_routing [OF start l2 code] raw empty
  show ?thesis by (auto simp del: append_Nil)
qed

subsection \<open>Values that are not numbers\<close>

lemma set_int_or_zero_malformed:
  "py_int v = None \<Longrightarrow> map_of (set_int_or_zero disk key v) key = Some 0"
  by (simp add: map_of_set_int_or_zero int_or_zero_def)

text \<open>
  Claim C7 holds where the parser stores through \<^verbatim>\<open>_set_int_or_zero\<close>, and fails for the
  three fields of the key/value dialect that call \<^verbatim>\<open>int\<close> directly: a value of
  \<^verbatim>\<open>Critical Warning\<close>, \<^verbatim>\<open>Data Units Read\<close> or \<^verbatim>\<open>Data Units Written\<close> that is not a number
  raises \<^verbatim>\<open>ValueError\<close> out of \<^verbatim>\<open>parse_raw_values\<close>, and with it the records of all
  devices of the section are lost, here those of the worked example.
\<close>

theorem critical_warning_not_numeric_raises:
  "py_int16 ''N/A'' = None \<and> py_int ''N/A'' = None \<and>
   parse_raw_values [nvme_header, [''Critical'', ''Warning:'', ''N/A''] ]
     = Inl ValueError \<and>
   parse_raw_values [nvme_header, [''Data'', ''Units'', ''Read:'', ''N/A''] ]
     = Inl ValueError \<and>
   parse_raw_values [nvme_header, [''Data'', ''Units'', ''Written:'', ''N/A''] ]
     = Inl ValueError \<and>
   parse_raw_values (worked_example @
       [nvme_header, [''Critical'', ''Warning:'', ''N/A''] ])
     = Inl ValueError"
proof -
  have a: "py_int16 ''N/A'' = None" "py_int ''N/A'' = None"
    by code_simp+
  have b: "parse_raw_values [nvme_header, [''Critical'', ''Warning:'', ''N/A''] ]
     = Inl ValueError"
    unfolding nvme_header_def by code_simp
  have c: "parse_raw_values [nvme_header, [''Data'', ''Units'', ''Read:'', ''N/A''] ]
     = Inl ValueError"
    unfolding nvme_header_def by code_simp
  have d: "parse_raw_values [nvme_header, [''Data'', ''Units'', ''Written:'', ''N/A''] ]
     = Inl ValueError"
    unfolding nvme_header_def by code_simp
  have e: "parse_raw_values (worked_example @
       [nvme_header, [''Critical'', ''Warning:'', ''N/A''] ])
     = Inl ValueError"
    unfolding worked_example_def nvme_header_def by code_simp
  from a b c d e show ?thesis by blast
qed

subsection \<open>Discovery\<close>

lemma captured_lookup_from:
  "map_of (concat (map (\<lambda>f. if capture_on_discovery f
                               then (case map_of disk (name f) of
                                       Some v \<Rightarrow> [(name f, v)]
                                     | None \<Rightarrow> [])
                               else []) as)) k = Some v
   \<longleftrightarrow> (\<exists>f \<in> set as. capture_on_discovery f \<and> name f = k) \<and> map_of disk k = Some v"
proof (induction as)
  case Nil
  then show ?case by simp
next
  case (Cons a as)
  show ?case
  proof (cases "capture_on_discovery a")
    case False
    with Cons show ?thesis by simp
  next
    case True
    show ?thesis
    proof (cases "map_of disk (name a)")
      case None
      with True Cons show ?thesis by auto
    next
      case (Some w)
      with True Cons show ?thesis by (cases "name a = k") auto
    qed
  qed
qed

lemma captured_lookup:
  "map_of (captured disk) k = Some v
   \<longleftrightarrow> (\<exists>f. capture_on_discovery f \<and> name f = k) \<and> map_of disk k = Some v"
  using captured_lookup_from [of disk all_attributes k v]
  by (auto simp: captured_def set_all_attributes)

lemma captured_keys_from:
  "map fst (concat (map (\<lambda>f. if capture_on_discovery f
                               then (case map_of disk (name f) of
                                       Some v \<Rightarrow> [(name f, v)]
                                     | None \<Rightarrow> [])
                               else []) as))
   = map name (filter (\<lambda>f. capture_on_discovery f \<and> map_of disk (name f) \<noteq> None) as)"
  by (induction as) (auto split: option.splits)

lemma captured_distinct: "distinct (map fst (captured disk))"
  unfolding captured_def captured_keys_from
  by (rule distinct_map_filter) (rule distinct_names)

lemma captured_nonempty:
  "captured disk \<noteq> [] \<longleftrightarrow> (\<exists>f. capture_on_discovery f \<and> name f \<in> fst ` set disk)"
proof -
  have "captured disk \<noteq> [] \<longleftrightarrow> map fst (captured disk) \<noteq> []"
    by simp
  also have "\<dots> \<longleftrightarrow> (\<exists>f \<in> set all_attributes. capture_on_discovery f \<and> map_of disk (name f) \<noteq> None)"
    unfolding captured_def captured_keys_from by (simp add: filter_empty_conv)
  also have "\<dots> \<longleftrightarrow> (\<exists>f. capture_on_discovery f \<and> name f \<in> fst ` set disk)"
    using set_all_attributes by (auto simp: key_present)
  finally show ?thesis .
qed

lemma captured_cong:
  assumes "map_of disk = map_of disk'"
  shows "captured disk = captured disk'"
  unfolding captured_def assms ..

lemma discover_set:
  "Service d ps \<in> set (discover_smart_stats section)
   \<longleftrightarrow> (\<exists>disk. (d, disk) \<in> set section \<and> captured disk \<noteq> [] \<and> ps = captured disk)"
  by (auto simp: discover_smart_stats_def split: if_splits)

lemma discover_items:
  "map (\<lambda>s. case s of Service d ps \<Rightarrow> d) (discover_smart_stats section)
   = map fst (filter (\<lambda>(d, disk). captured disk \<noteq> []) section)"
  by (induction "section") (auto simp: discover_smart_stats_def)

text \<open>
  Claim C6. The items that the discovery emits are the devices of the section that have
  at least one attribute flagged for capture among their keys, in the order of the
  section and once for each entry. The parameters emitted for a device are a dictionary
  whose entries are exactly the flagged attributes of the registry that the reading of
  the device has, each with the value of the reading. The discovery is a function of the
  section alone, so a second run on the same section gives the same services; and the
  parameters depend on the reading as a mapping only, not on the order of its entries.
\<close>

theorem discovery_exact:
  "map (\<lambda>s. case s of Service d ps \<Rightarrow> d) (discover_smart_stats section)
     = map fst (filter (\<lambda>(d, disk). \<exists>f. capture_on_discovery f \<and> name f \<in> fst ` set disk) section)
   \<and> (\<forall>d ps. Service d ps \<in> set (discover_smart_stats section) \<longleftrightarrow>
         (\<exists>disk. (d, disk) \<in> set section
                \<and> (\<exists>f. capture_on_discovery f \<and> name f \<in> fst ` set disk)
                \<and> distinct (map fst ps)
                \<and> ps = captured disk
                \<and> (\<forall>k v. map_of ps k = Some v \<longleftrightarrow>
                      (\<exists>f. capture_on_discovery f \<and> name f = k) \<and> map_of disk k = Some v)))
   \<and> (\<forall>disk disk'. map_of disk = map_of disk' \<longrightarrow> captured disk = captured disk')"
proof (intro conjI allI impI)
  show "map (\<lambda>s. case s of Service d ps \<Rightarrow> d) (discover_smart_stats section)
     = map fst (filter (\<lambda>(d, disk). \<exists>f. capture_on_discovery f \<and> name f \<in> fst ` set disk) section)"
    by (simp add: discover_items captured_nonempty)
next
  fix d ps
  show "Service d ps \<in> set (discover_smart_stats section) \<longleftrightarrow>
         (\<exists>disk. (d, disk) \<in> set section
                \<and> (\<exists>f. capture_on_discovery f \<and> name f \<in> fst ` set disk)
                \<and> distinct (map fst ps)
                \<and> ps = captured disk
                \<and> (\<forall>k v. map_of ps k = Some v \<longleftrightarrow>
                      (\<exists>f. capture_on_discovery f \<and> name f = k) \<and> map_of disk k = Some v))"
    unfolding discover_set
    using captured_nonempty captured_distinct captured_lookup by blast
next
  fix disk disk' :: Disk
  assume "map_of disk = map_of disk'"
  then show "captured disk = captured disk'" by (rule captured_cong)
qed

theorem discovery_exact_witness:
  "discover_smart_stats two_disks =
     [Service ''/dev/sda'' [(''Reallocated_Sectors'', 2), (''Pending_Sectors'', 0)] ]
   \<and> map (\<lambda>s. case s of Service d ps \<Rightarrow> d) (discover_smart_stats two_disks)
     = map fst (filter (\<lambda>(d, disk). \<exists>f. capture_on_discovery f \<and> name f \<in> fst ` set disk)
          two_disks)"
proof -
  have run: "discover_smart_stats two_disks =
     [Service ''/dev/sda'' [(''Reallocated_Sectors'', 2), (''Pending_Sectors'', 0)] ]"
    unfolding two_disks_def by code_simp
  have items: "map (\<lambda>s. case s of Service d ps \<Rightarrow> d) (discover_smart_stats two_disks)
     = map fst (filter (\<lambda>(d, disk). \<exists>f. capture_on_discovery f \<and> name f \<in> fst ` set disk)
          two_disks)"
    by (rule discovery_exact [THEN conjunct1])
  from run items show ?thesis by (rule conjI)
qed

end
